theory Spec2Isabelle
  imports Complex_Main "HOL-Library.Multiset" "HOL-Library.Char_ord" "HOL-Library.List_Lexorder"
begin

section \<open>Errors and return conventions\<close>

text \<open>
  The Python sources signal most failures by \<^verbatim>\<open>print(msg); return -1.\<close>. For an
  ordinary function the caller receives the float \<^verbatim>\<open>-1.\<close>; this is \<open>Inl (Sentinel msg)\<close>.
  Inside \<^verbatim>\<open>__init__\<close> the same statement makes Python's instance creation raise
  \<^verbatim>\<open>TypeError: __init__() should return None, not 'float'\<close>, so the caller of the class
  receives no instance; this is \<open>Inl (InitTypeError msg)\<close>, keeping the printed message.
  \<open>NoneReturned msg\<close> is a getter that printed the message and returned \<^verbatim>\<open>None\<close>. The
  remaining constructors are exceptions raised by Python, NumPy or SciPy.
\<close>

datatype error =
    Sentinel string
  | InitTypeError string
  | AttributeError string
  | TypeError
  | IndexError
  | AxisError
  | ValueError
  | NoneReturned string

text \<open>Sequencing of fallible steps: the first error ends the computation.\<close>

definition bind_err :: "error + 'a \<Rightarrow> ('a \<Rightarrow> error + 'b) \<Rightarrow> error + 'b" where
  "bind_err r f = (case r of Inl e \<Rightarrow> Inl e | Inr v \<Rightarrow> f v)"

section \<open>NumPy arrays\<close>

text \<open>
  An array is kept by its number of dimensions, so that \<^verbatim>\<open>np.ndim\<close> is decided by the
  constructor: a 0-d array, a 1-d array, a 2-d array (number of columns and the list of
  rows; the column count is kept because an array may have no rows) and an array of three
  or more dimensions (the first three extents, the further ones, and the entries in
  row-major order). Entries are \<^typ>\<open>real\<close> for numeric arrays; rounding of floating
  point numbers is not modelled.
\<close>

datatype 'a ndarray =
    Arr0 'a
  | Arr1 "'a list"
  | Arr2 nat "'a list list"
  | ArrN nat nat nat "nat list" "'a list"

fun shape :: "'a ndarray \<Rightarrow> nat list" where
  "shape (Arr0 x) = []"
| "shape (Arr1 xs) = [length xs]"
| "shape (Arr2 c rows) = [length rows, c]"
| "shape (ArrN d0 d1 d2 ds es) = d0 # d1 # d2 # ds"

definition ndim :: "'a ndarray \<Rightarrow> nat" where
  "ndim a = length (shape a)"

text \<open>The representation invariant of an array: rows of a 2-d array all have the
  recorded number of columns, and a higher-dimensional array has as many entries as its
  shape says.\<close>

fun wf_array :: "'a ndarray \<Rightarrow> bool" where
  "wf_array (Arr0 x) = True"
| "wf_array (Arr1 xs) = True"
| "wf_array (Arr2 c rows) = list_all (\<lambda>r. length r = c) rows"
| "wf_array (ArrN d0 d1 d2 ds es) = (length es = prod_list (d0 # d1 # d2 # ds))"

text \<open>\<^verbatim>\<open>np.shape(a)[i]\<close>: indexing the shape tuple raises IndexError out of range.\<close>

definition shape_at :: "'a ndarray \<Rightarrow> nat \<Rightarrow> error + nat" where
  "shape_at a i = (if i < ndim a then Inr (shape a ! i) else Inl IndexError)"

text \<open>Entrywise application of a function (\<^verbatim>\<open>a + offset\<close>, a vectorised callable).\<close>

fun amap :: "('a \<Rightarrow> 'b) \<Rightarrow> 'a ndarray \<Rightarrow> 'b ndarray" where
  "amap f (Arr0 x) = Arr0 (f x)"
| "amap f (Arr1 xs) = Arr1 (map f xs)"
| "amap f (Arr2 c rows) = Arr2 c (map (map f) rows)"
| "amap f (ArrN d0 d1 d2 ds es) = ArrN d0 d1 d2 ds (map f es)"

text \<open>Entrywise combination of two arrays of the same shape. NumPy broadcasts operands
  of different shapes or raises; that is outside this model (\<open>None\<close>): the only entrywise
  binary operation of the sources sits behind a shape-equality guard.\<close>

fun azip :: "('a \<Rightarrow> 'b \<Rightarrow> 'c) \<Rightarrow> 'a ndarray \<Rightarrow> 'b ndarray \<Rightarrow> 'c ndarray option" where
  "azip f (Arr0 x) (Arr0 y) = Some (Arr0 (f x y))"
| "azip f (Arr1 xs) (Arr1 ys) =
     (if length xs = length ys then Some (Arr1 (map2 f xs ys)) else None)"
| "azip f (Arr2 c rows) (Arr2 c' rows') =
     (if c = c' \<and> length rows = length rows'
      then Some (Arr2 c (map2 (map2 f) rows rows')) else None)"
| "azip f (ArrN d0 d1 d2 ds es) (ArrN d0' d1' d2' ds' es') =
     (if d0 # d1 # d2 # ds = d0' # d1' # d2' # ds'
      then Some (ArrN d0 d1 d2 ds (map2 f es es')) else None)"
| "azip f a b = None"

text \<open>Rows and columns of a 2-d array held as a list of rows.\<close>

definition column :: "nat \<Rightarrow> 'a list list \<Rightarrow> 'a list" where
  "column j rows = map (\<lambda>r. r ! j) rows"

text \<open>
  An argument as Python passes it: either a genuine \<^verbatim>\<open>numpy.ndarray\<close>, or some other
  object (a list, a tuple, a scalar) that NumPy functions read as the given array but
  whose \<^verbatim>\<open>type\<close> is not \<^verbatim>\<open>numpy.ndarray\<close>.
\<close>

datatype 'a pyval = NDArray "'a ndarray" | ArrayLike "'a ndarray"

fun arr_of :: "'a pyval \<Rightarrow> 'a ndarray" where
  "arr_of (NDArray a) = a"
| "arr_of (ArrayLike a) = a"

fun is_ndarray :: "'a pyval \<Rightarrow> bool" where
  "is_ndarray (NDArray a) = True"
| "is_ndarray (ArrayLike a) = False"

definition np_shape :: "'a pyval \<Rightarrow> nat list" where
  "np_shape v = shape (arr_of v)"

definition np_ndim :: "'a pyval \<Rightarrow> nat" where
  "np_ndim v = ndim (arr_of v)"

section \<open>The stacking utility \<^verbatim>\<open>TransmitanceMeas1D.stick_together\<close>\<close>

text \<open>\<^verbatim>\<open>not axis\<close> used as an index: 1 when \<^verbatim>\<open>axis\<close> is 0, otherwise 0.\<close>

definition not_axis :: "nat \<Rightarrow> nat" where
  "not_axis axis = (if axis = 0 then 1 else 0)"

text \<open>\<^verbatim>\<open>np.expand_dims\<close> of a 1-d array: a single row for axis 0, a single column for
  axis 1, AxisError beyond.\<close>

definition expand_dims :: "'a list \<Rightarrow> nat \<Rightarrow> error + 'a ndarray" where
  "expand_dims xs axis =
     (if axis = 0 then Inr (Arr2 (length xs) [xs])
      else if axis = 1 then Inr (Arr2 1 (map (\<lambda>x. [x]) xs))
      else Inl AxisError)"

text \<open>\<^verbatim>\<open>np.concatenate\<close> of two 2-d arrays: the extents along the other axis must agree
  (ValueError), the axis must exist (AxisError). The utility calls it on 2-d operands
  only; on operands of other dimensions NumPy raises ValueError unless both have the same
  number of dimensions, a case the utility never produces.\<close>

definition concatenate :: "'a ndarray \<Rightarrow> 'a ndarray \<Rightarrow> nat \<Rightarrow> error + 'a ndarray" where
  "concatenate a b axis =
     (case (a, b) of
        (Arr2 c rows, Arr2 c' rows') \<Rightarrow>
          (if axis = 0 then
             (if c = c' then Inr (Arr2 c (rows @ rows')) else Inl ValueError)
           else if axis = 1 then
             (if length rows = length rows'
              then Inr (Arr2 (c + c') (map2 (@) rows rows')) else Inl ValueError)
           else Inl AxisError)
      | _ \<Rightarrow> Inl ValueError)"

text \<open>The source's last branch (\<^verbatim>\<open>prod\<close> neither 4 nor 2): both operands 1-d, or one of
  them 0-d, where \<^verbatim>\<open>np.shape(arr)[0]\<close> raises IndexError. Once both extents have been
  read and found equal both operands are 1-d, so the last alternative of the case
  distinction is never taken.\<close>

definition stick_1d_1d :: "'a ndarray \<Rightarrow> 'a ndarray \<Rightarrow> nat \<Rightarrow> error + 'a ndarray" where
  "stick_1d_1d a1 a2 axis =
     bind_err (shape_at a1 0) (\<lambda>n1.
     bind_err (shape_at a2 0) (\<lambda>n2.
       if n1 \<noteq> n2
       then Inl (Sentinel ''In function TransmitanceMeas1D::stick_together(): ERR4.'')
       else (case (a1, a2) of
               (Arr1 xs, Arr1 ys) \<Rightarrow>
                 bind_err (expand_dims xs axis) (\<lambda>e1.
                 bind_err (expand_dims ys axis) (\<lambda>e2.
                   concatenate e1 e2 axis))
             | _ \<Rightarrow> Inl ValueError)))"

text \<open>The branch \<^verbatim>\<open>prod == 2\<close>: one operand 1-d, the other 2-d. The 1-d operand always
  comes first in the concatenation, whichever argument it was. Here \<open>unid_array\<close> is
  1-d, so the last alternative of the case distinction is never taken.\<close>

definition stick_1d_2d :: "'a ndarray \<Rightarrow> 'a ndarray \<Rightarrow> nat \<Rightarrow> error + 'a ndarray" where
  "stick_1d_2d a1 a2 axis =
     (let unid_array = (if ndim a1 = 1 then a1 else a2);
          bid_array = (if ndim a1 = 1 then a2 else a1)
      in bind_err (shape_at unid_array 0) (\<lambda>n.
         bind_err (shape_at bid_array (not_axis axis)) (\<lambda>m.
           if n \<noteq> m
           then Inl (Sentinel ''In function TransmitanceMeas1D::stick_together(): ERR3.'')
           else (case unid_array of
                   Arr1 xs \<Rightarrow>
                     bind_err (expand_dims xs axis) (\<lambda>u. concatenate u bid_array axis)
                 | _ \<Rightarrow> Inl ValueError))))"

definition stick_together :: "'a pyval \<Rightarrow> 'a pyval \<Rightarrow> nat \<Rightarrow> error + 'a ndarray" where
  "stick_together arr1 arr2 axis =
     (if \<not> is_ndarray arr1 \<or> \<not> is_ndarray arr2
      then Inl (Sentinel ''In function TransmitanceMeas1D::stick_together(): ERR0.'')
      else if np_ndim arr1 > 2 \<or> np_ndim arr2 > 2
      then Inl (Sentinel ''In function TransmitanceMeas1D::stick_together(): ERR1.'')
      else let prod = np_ndim arr1 * np_ndim arr2 in
        if prod = 4 then
          bind_err (shape_at (arr_of arr1) (not_axis axis)) (\<lambda>n1.
          bind_err (shape_at (arr_of arr2) (not_axis axis)) (\<lambda>n2.
            if n1 \<noteq> n2
            then Inl (Sentinel ''In function TransmitanceMeas1D::stick_together(): ERR2.'')
            else concatenate (arr_of arr1) (arr_of arr2) axis))
        else if prod = 2 then stick_1d_2d (arr_of arr1) (arr_of arr2) axis
        else stick_1d_1d (arr_of arr1) (arr_of arr2) axis)"

text \<open>The extent of an operand along the axis that is not the target axis, as
  \<^verbatim>\<open>stick_together\<close> reads it: the length of a 1-d operand, \<^verbatim>\<open>shape[not axis]\<close> of a
  2-d one.\<close>

definition other_extent :: "'a ndarray \<Rightarrow> nat \<Rightarrow> nat" where
  "other_extent a axis = (case a of Arr1 xs \<Rightarrow> length xs | _ \<Rightarrow> shape a ! not_axis axis)"

definition is_sentinel :: "error + 'a \<Rightarrow> bool" where
  "is_sentinel r = (case r of Inl (Sentinel m) \<Rightarrow> True | _ \<Rightarrow> False)"

section \<open>The sorting utility \<^verbatim>\<open>TransmitanceMeas1D.sort_bidimensional_array_mutually\<close>\<close>

text \<open>\<^verbatim>\<open>np.argsort\<close>: the indices that put the keys in ascending order. NumPy's default
  sort gives no promise on the order of equal keys; the model takes the stable order.\<close>

definition argsort :: "('a::linorder) list \<Rightarrow> nat list" where
  "argsort keys = sort_key (\<lambda>i. keys ! i) [0..<length keys]"

text \<open>The loop for \<^verbatim>\<open>axis == 0\<close>:
  \<^verbatim>\<open>for i in iterator: sorted_array[:, i] = sorted_array[sorting_indices, i]\<close>.
  The right-hand side (fancy indexing) is a fresh array read from the current contents;
  the assignment then overwrites column \<open>i\<close> of the same array.\<close>

definition fancy_column :: "nat list \<Rightarrow> nat \<Rightarrow> 'a list list \<Rightarrow> 'a list" where
  "fancy_column sorting_indices i rows = map (\<lambda>p. rows ! p ! i) sorting_indices"

definition assign_column :: "nat \<Rightarrow> 'a list \<Rightarrow> 'a list list \<Rightarrow> 'a list list" where
  "assign_column i vs rows = map2 (\<lambda>r v. r[i := v]) rows vs"

definition columns_loop :: "nat list \<Rightarrow> nat list \<Rightarrow> 'a list list \<Rightarrow> 'a list list" where
  "columns_loop sorting_indices iterator rows =
     foldl (\<lambda>sorted_array i. assign_column i (fancy_column sorting_indices i sorted_array) sorted_array)
       rows iterator"

text \<open>The loop for \<^verbatim>\<open>axis == 1\<close>:
  \<^verbatim>\<open>for i in iterator: sorted_array[i, :] = sorted_array[i, sorting_indices]\<close>.\<close>

definition rows_loop :: "nat list \<Rightarrow> nat list \<Rightarrow> 'a list list \<Rightarrow> 'a list list" where
  "rows_loop sorting_indices iterator rows =
     foldl (\<lambda>sorted_array i. sorted_array[i := map (\<lambda>p. sorted_array ! i ! p) sorting_indices])
       rows iterator"

text \<open>
  What the call does to the array object it is given: either it fails before touching
  it, or the object ends with the contents computed here. The two range guards of the
  source compare \<^verbatim>\<open>line\<close> with \<^verbatim>\<open>shape[0]\<close> when \<^verbatim>\<open>axis\<close> is 0 and with \<^verbatim>\<open>shape[1]\<close> when
  \<^verbatim>\<open>axis\<close> is 1; the key is then read as \<^verbatim>\<open>bid_array[:, line]\<close>, respectively
  \<^verbatim>\<open>bid_array[line, :]\<close>, where NumPy raises IndexError for an index beyond the extent
  it indexes. Arrays of three or more dimensions are not modelled (ValueError).
\<close>

definition sorted_contents :: "('a::linorder) ndarray \<Rightarrow> int \<Rightarrow> int \<Rightarrow> error + 'a ndarray" where
  "sorted_contents bid_array axis line =
     (if axis \<noteq> 0 \<and> axis \<noteq> 1
      then Inl (Sentinel ''In function sort_bidimensional_array_mutually(): Not allowed value for axis. Returning -1.'')
      else if line < 0
      then Inl (Sentinel ''In function sort_bidimensional_array_mutually(): Not allowed value for line. Returning -1.'')
      else if axis = 0 then
        bind_err (shape_at bid_array 0) (\<lambda>n0.
          if line \<ge> int n0
          then Inl (Sentinel ''In function sort_bidimensional_array_mutually(): Not allowed value for line. Returning -1.'')
          else bind_err (shape_at bid_array 1) (\<lambda>n1.
            case bid_array of
              Arr2 c rows \<Rightarrow>
                if nat line < c
                then Inr (Arr2 c (columns_loop (argsort (column (nat line) rows)) [0..<n1] rows))
                else Inl IndexError
            | _ \<Rightarrow> Inl ValueError))
      else
        bind_err (shape_at bid_array 1) (\<lambda>n1.
          if line \<ge> int n1
          then Inl (Sentinel ''In function sort_bidimensional_array_mutually(): Not allowed value for line. Returning -1.'')
          else bind_err (shape_at bid_array 0) (\<lambda>n0.
            case bid_array of
              Arr2 c rows \<Rightarrow>
                if nat line < length rows
                then Inr (Arr2 c (rows_loop (argsort (rows ! nat line)) [0..<n0] rows))
                else Inl IndexError
            | _ \<Rightarrow> Inl ValueError)))"

text \<open>
  The function itself, on a store of array objects. \<^verbatim>\<open>sorted_array = bid_array\<close> binds a
  second name to the caller's object, every assignment of the loop writes into that
  object, and the same reference is returned.
\<close>

type_synonym addr = nat

type_synonym 'a heap = "addr \<Rightarrow> 'a ndarray"

definition sort_bidimensional_array_mutually ::
  "('a::linorder) heap \<Rightarrow> addr \<Rightarrow> int \<Rightarrow> int \<Rightarrow> (error + addr) \<times> 'a heap" where
  "sort_bidimensional_array_mutually h bid_array axis line =
     (case sorted_contents (h bid_array) axis line of
        Inl e \<Rightarrow> (Inl e, h)
      | Inr contents \<Rightarrow> (Inr bid_array, h(bid_array := contents)))"

section \<open>The file adapter \<^verbatim>\<open>TransmitanceMeas1D.default_parser\<close>\<close>

text \<open>
  \<^verbatim>\<open>np.array(pd.read_csv(...))\<close> is an array of Python objects: the fourth column holds
  the text \<^verbatim>\<open>DC\<close> in its first row, so pandas keeps that whole column as strings. A cell is
  a float or a string.
\<close>

datatype cell = Num real | Str string

text \<open>Python orders floats by value and strings lexicographically and raises TypeError
  between the two. The adapter sorts only by a column it has just converted to floats;
  the order below extends the two orders to a total one (floats first) so that the
  sorting utility applies to arrays of cells.\<close>

instantiation cell :: linorder
begin

fun less_eq_cell :: "cell \<Rightarrow> cell \<Rightarrow> bool" where
  "less_eq_cell (Num x) (Num y) = (x \<le> y)"
| "less_eq_cell (Num x) (Str t) = True"
| "less_eq_cell (Str s) (Num y) = False"
| "less_eq_cell (Str s) (Str t) = (s \<le> t)"

definition less_cell :: "cell \<Rightarrow> cell \<Rightarrow> bool" where
  "less_cell a b = (a \<le> b \<and> \<not> b \<le> a)"

instance
proof
  fix x y z :: cell
  show "(x < y) = (x \<le> y \<and> \<not> y \<le> x)" by (simp add: less_cell_def)
  show "x \<le> x" by (cases x) simp_all
  show "x \<le> y \<Longrightarrow> y \<le> z \<Longrightarrow> x \<le> z" by (cases x; cases y; cases z) auto
  show "x \<le> y \<Longrightarrow> y \<le> x \<Longrightarrow> x = y" by (cases x; cases y) auto
  show "x \<le> y \<or> y \<le> x" by (cases x; cases y) auto
qed

end

text \<open>\<^verbatim>\<open>a - b\<close> on two objects: defined on floats, TypeError if a string is involved.\<close>

definition cell_sub :: "cell \<Rightarrow> cell \<Rightarrow> error + cell" where
  "cell_sub a b = (case (a, b) of (Num x, Num y) \<Rightarrow> Inr (Num (x - y)) | _ \<Rightarrow> Inl TypeError)"

text \<open>\<^verbatim>\<open>float(v)\<close>: a float is returned as it is; a string is read by Python's \<^verbatim>\<open>float\<close>,
  which is a parameter \<open>pyfloat\<close> of the model (\<open>None\<close> where it raises ValueError).\<close>

definition cell_float :: "(string \<Rightarrow> real option) \<Rightarrow> cell \<Rightarrow> error + cell" where
  "cell_float pyfloat v =
     (case v of
        Num x \<Rightarrow> Inr (Num x)
      | Str s \<Rightarrow> (case pyfloat s of None \<Rightarrow> Inl ValueError | Some x \<Rightarrow> Inr (Num x)))"

fun map_err :: "('a \<Rightarrow> error + 'b) \<Rightarrow> 'a list \<Rightarrow> error + 'b list" where
  "map_err f [] = Inr []"
| "map_err f (x # xs) = bind_err (f x) (\<lambda>y. bind_err (map_err f xs) (\<lambda>ys. Inr (y # ys)))"

text \<open>Replacing column \<open>j\<close> of every row by a function of its entry, failing with the
  first entry on which the function fails.\<close>

definition update_column :: "('a \<Rightarrow> error + 'a) \<Rightarrow> nat \<Rightarrow> 'a list list \<Rightarrow> error + 'a list list" where
  "update_column f j rows = map_err (\<lambda>r. bind_err (f (r ! j)) (\<lambda>v. Inr (r[j := v]))) rows"

text \<open>
  The adapter, starting from the array that \<^verbatim>\<open>np.array(pd.read_csv(...))\<close> yields (the
  file without its header row). Column indices are natural numbers (the source's
  defaults are 3 and 1). The array is local to the call, so the in-place sort is used
  through its contents. When the sort returns its sentinel \<^verbatim>\<open>-1.\<close>, the following
  \<^verbatim>\<open>data[:,x_col]\<close> indexes a float and raises TypeError. \<^verbatim>\<open>np.vectorize(float)\<close> raises
  ValueError on an empty column. The two columns returned hold floats only; they are
  handed on as numeric arrays (a string among them would make later arithmetic raise
  TypeError). A successful sort returns a 2-d array, so the last alternative of the case
  distinction on its result is never taken.
\<close>

definition cell_num :: "cell \<Rightarrow> error + real" where
  "cell_num v = (case v of Num x \<Rightarrow> Inr x | Str s \<Rightarrow> Inl TypeError)"

definition default_parser ::
  "(string \<Rightarrow> real option) \<Rightarrow> cell ndarray \<Rightarrow> nat \<Rightarrow> nat \<Rightarrow> error + (real ndarray \<times> real ndarray)" where
  "default_parser pyfloat data x_col y_col =
     (case data of
        Arr2 c rows \<Rightarrow>
          if rows = [] \<or> c \<le> 1 then Inl IndexError
          else
            let offset = hd rows ! 1;
                data1 = tl rows
            in if c \<le> y_col then Inl IndexError
               else bind_err (update_column (\<lambda>v. cell_sub v offset) y_col data1) (\<lambda>data2.
                 if c \<le> x_col then Inl IndexError
                 else if data2 = [] then Inl ValueError
                 else bind_err (update_column (cell_float pyfloat) x_col data2) (\<lambda>data3.
                   case sorted_contents (Arr2 c data3) 0 (int x_col) of
                     Inl (Sentinel m) \<Rightarrow> Inl TypeError
                   | Inl e \<Rightarrow> Inl e
                   | Inr (Arr2 c' sorted_rows) \<Rightarrow>
                       bind_err (map_err cell_num (column x_col sorted_rows)) (\<lambda>xs.
                       bind_err (map_err cell_num (column y_col sorted_rows)) (\<lambda>ys.
                         Inr (Arr1 xs, Arr1 ys)))
                   | Inr _ \<Rightarrow> Inl IndexError))
      | _ \<Rightarrow> Inl IndexError)"

section \<open>The base class \<^verbatim>\<open>TransmitanceMeas\<close>\<close>

text \<open>An instance attribute is unassigned until \<^verbatim>\<open>__init__\<close> or a method assigns it;
  reading an unassigned attribute raises AttributeError.\<close>

datatype 'a attr = Unassigned | Assigned 'a

definition read_attr :: "string \<Rightarrow> 'a attr \<Rightarrow> error + 'a" where
  "read_attr name a = (case a of Unassigned \<Rightarrow> Inl (AttributeError name) | Assigned v \<Rightarrow> Inr v)"

record TransmitanceMeas =
  self_dep_is_available :: "bool attr"
  self_dep :: "real pyval attr"
  self_ref :: "real ndarray attr"
  self_meas :: "real ndarray attr"
  self_transmitance :: "real ndarray attr"

text \<open>
  \<^verbatim>\<open>__init__\<close> as a function on the instance under construction: the first component of
  the result is \<open>Some msg\<close> when the method printed \<open>msg\<close> and returned \<^verbatim>\<open>-1.\<close>, and \<open>None\<close>
  when it returned normally; the second is the instance as the method left it.
\<close>

definition TransmitanceMeas_init ::
  "'z TransmitanceMeas_scheme \<Rightarrow> real pyval \<Rightarrow> real pyval \<Rightarrow> real \<Rightarrow> real \<Rightarrow> real pyval option
     \<Rightarrow> string option \<times> 'z TransmitanceMeas_scheme" where
  "TransmitanceMeas_init self ref meas ref_offset meas_offset dep =
     (if \<not> is_ndarray ref \<or> \<not> is_ndarray meas
      then (Some ''In method TransmitanceMeas::__init__(): ERR0.'', self)
      else if np_shape ref \<noteq> np_shape meas
      then (Some ''In method TransmitanceMeas::__init__(): ERR1.'', self)
      else
        let self1 = self\<lparr>self_dep_is_available := Assigned False\<rparr> in
        case dep of
          None \<Rightarrow>
            (None, self1\<lparr>self_ref := Assigned (amap (\<lambda>x. x + ref_offset) (arr_of ref)),
                         self_meas := Assigned (amap (\<lambda>x. x + meas_offset) (arr_of meas))\<rparr>)
        | Some d \<Rightarrow>
            if np_shape d \<noteq> np_shape ref
            then (Some ''In method TransmitanceMeas::__init__(): ERR2.'', self1)
            else (None, self1\<lparr>self_dep := Assigned d,
                               self_dep_is_available := Assigned True,
                               self_ref := Assigned (amap (\<lambda>x. x + ref_offset) (arr_of ref)),
                               self_meas := Assigned (amap (\<lambda>x. x + meas_offset) (arr_of meas))\<rparr>))"

definition new_TransmitanceMeas :: TransmitanceMeas where
  "new_TransmitanceMeas =
     \<lparr>self_dep_is_available = Unassigned, self_dep = Unassigned, self_ref = Unassigned,
      self_meas = Unassigned, self_transmitance = Unassigned\<rparr>"

text \<open>Calling the class: Python creates the instance, runs \<^verbatim>\<open>__init__\<close> and raises
  TypeError when \<^verbatim>\<open>__init__\<close> returned something other than \<^verbatim>\<open>None\<close>.\<close>

definition TransmitanceMeas_call ::
  "real pyval \<Rightarrow> real pyval \<Rightarrow> real \<Rightarrow> real \<Rightarrow> real pyval option \<Rightarrow> error + TransmitanceMeas" where
  "TransmitanceMeas_call ref meas ref_offset meas_offset dep =
     (case TransmitanceMeas_init new_TransmitanceMeas ref meas ref_offset meas_offset dep of
        (Some msg, self) \<Rightarrow> Inl (InitTypeError msg)
      | (None, self) \<Rightarrow> Inr self)"

definition get_dep :: "'z TransmitanceMeas_scheme \<Rightarrow> error + real pyval" where
  "get_dep self =
     bind_err (read_attr ''dep_is_available_'' (self_dep_is_available self)) (\<lambda>available.
       if available then read_attr ''dep_'' (self_dep self)
       else Inl (NoneReturned ''In function TransmitanceMeas::get_dep(): Dependent variable information is not available.''))"

definition get_ref :: "'z TransmitanceMeas_scheme \<Rightarrow> error + real ndarray" where
  "get_ref self = read_attr ''ref_'' (self_ref self)"

definition get_meas :: "'z TransmitanceMeas_scheme \<Rightarrow> error + real ndarray" where
  "get_meas self = read_attr ''meas_'' (self_meas self)"

definition check_compatibility :: "'z TransmitanceMeas_scheme \<Rightarrow> error + bool" where
  "check_compatibility self =
     bind_err (read_attr ''dep_is_available_'' (self_dep_is_available self)) (\<lambda>available.
     bind_err (read_attr ''ref_'' (self_ref self)) (\<lambda>r.
     bind_err (read_attr ''meas_'' (self_meas self)) (\<lambda>m.
       if available then
         (if shape r = shape m
          then bind_err (read_attr ''dep_'' (self_dep self)) (\<lambda>d. Inr (shape r = np_shape d))
          else Inr False)
       else Inr (shape r = shape m))))"

text \<open>
  \<^verbatim>\<open>get_transmitance\<close> returns its value together with the instance, on which it stores
  the quotient. The division is entrywise; NumPy divides by a zero entry without
  raising (the result is infinite or not a number), which the reals do not model. Behind
  the guard the two shapes are equal, so the \<open>None\<close> of \<^const>\<open>azip\<close> is not met.
\<close>

definition get_transmitance ::
  "'z TransmitanceMeas_scheme \<Rightarrow> (error + real ndarray) \<times> 'z TransmitanceMeas_scheme" where
  "get_transmitance self =
     (case check_compatibility self of
        Inl e \<Rightarrow> (Inl e, self)
      | Inr False \<Rightarrow> (Inl (Sentinel ''In function TransmitanceMeas::get_transmitance(): ERR0.''), self)
      | Inr True \<Rightarrow>
          (case (self_meas self, self_ref self) of
             (Assigned m, Assigned r) \<Rightarrow>
               (case azip (\<lambda>x y. x / y) m r of
                  Some t \<Rightarrow> (Inr t, self\<lparr>self_transmitance := Assigned t\<rparr>)
                | None \<Rightarrow> (Inl ValueError, self))
           | _ \<Rightarrow> (Inl (AttributeError ''meas_''), self)))"

text \<open>The entries of an array in row-major order.\<close>

fun entries :: "'a ndarray \<Rightarrow> 'a list" where
  "entries (Arr0 x) = [x]"
| "entries (Arr1 xs) = xs"
| "entries (Arr2 c rows) = concat rows"
| "entries (ArrN d0 d1 d2 ds es) = es"

section \<open>The 1-d class \<^verbatim>\<open>TransmitanceMeas1D\<close>\<close>

text \<open>
  A reference model is a callable on floats. The attribute \<^verbatim>\<open>fInterpolator_\<close> holds a
  flag, except for the moment at which the initializer assigns a spline to it; both
  kinds of value are kept, with Python's truth value (an object is true).

  The SciPy routines are parameters of the model: \<open>CubicSpline x y\<close> builds the
  interpolant or raises, \<open>curve_fit f x y\<close> returns the two fitted parameters or raises.
\<close>

type_synonym callable = "real \<Rightarrow> real"

datatype flag_or_callable = Flag bool | Callable callable

fun truth :: "flag_or_callable \<Rightarrow> bool" where
  "truth (Flag b) = b"
| "truth (Callable f) = True"

type_synonym spline_lib = "real ndarray \<Rightarrow> real ndarray \<Rightarrow> error + callable"

type_synonym fit_lib =
  "(real \<Rightarrow> real \<Rightarrow> real \<Rightarrow> real) \<Rightarrow> real ndarray \<Rightarrow> real ndarray \<Rightarrow> error + (real \<times> real)"

record TransmitanceMeas1D = TransmitanceMeas +
  self_raw_ref :: "real ndarray option attr"
  self_raw_meas :: "real ndarray option attr"
  self_fInterpolator :: "flag_or_callable attr"
  self_refInterpolator :: "callable attr"

text \<open>The initializer. An exception of \<open>CubicSpline\<close> leaves it through \<open>Inl\<close>. The
  value that \<^verbatim>\<open>super().__init__(...)\<close> returns is dropped by the source, so a base
  initializer that printed an error and returned \<^verbatim>\<open>-1.\<close> does not stop this one.\<close>

definition TransmitanceMeas1D_init ::
  "spline_lib \<Rightarrow> TransmitanceMeas1D \<Rightarrow> real pyval \<Rightarrow> real pyval \<Rightarrow> real \<Rightarrow> real
     \<Rightarrow> real pyval option \<Rightarrow> real ndarray option \<Rightarrow> real ndarray option \<Rightarrow> callable option
     \<Rightarrow> error + (string option \<times> TransmitanceMeas1D)" where
  "TransmitanceMeas1D_init CubicSpline self ref meas ref_offset meas_offset dep raw_ref raw_meas
       refInterpolator =
     (if np_ndim ref \<noteq> 1
      then Inr (Some ''In function TransmitanceMeas1D::__init__(): ERR0.'', self)
      else if np_shape ref \<noteq> np_shape meas
      then Inr (Some ''In function TransmitanceMeas1D::__init__(): ERR1.'', self)
      else if (case dep of None \<Rightarrow> False | Some d \<Rightarrow> np_shape ref \<noteq> np_shape d)
      then Inr (Some ''In function TransmitanceMeas1D::__init__(): ERR2.'', self)
      else
        let self1 = self\<lparr>self_raw_ref := Assigned raw_ref\<rparr>;
            self2 = self1\<lparr>self_raw_meas := Assigned raw_meas\<rparr>
        in bind_err
             (case refInterpolator of
                None \<Rightarrow>
                  (case dep of
                     None \<Rightarrow> Inr (self2\<lparr>self_fInterpolator := Assigned (Flag False)\<rparr>)
                   | Some d \<Rightarrow>
                       bind_err (CubicSpline (arr_of d) (arr_of ref)) (\<lambda>spline.
                         Inr (self2\<lparr>self_fInterpolator := Assigned (Callable spline)\<rparr>
                                   \<lparr>self_fInterpolator := Assigned (Flag True)\<rparr>)))
              | Some f \<Rightarrow>
                  Inr (self2\<lparr>self_fInterpolator := Assigned (Flag True)\<rparr>
                            \<lparr>self_refInterpolator := Assigned f\<rparr>))
             (\<lambda>self3. Inr (None, snd (TransmitanceMeas_init self3 ref meas ref_offset meas_offset dep))))"

definition new_TransmitanceMeas1D :: TransmitanceMeas1D where
  "new_TransmitanceMeas1D =
     \<lparr>self_dep_is_available = Unassigned, self_dep = Unassigned, self_ref = Unassigned,
      self_meas = Unassigned, self_transmitance = Unassigned,
      self_raw_ref = Unassigned, self_raw_meas = Unassigned,
      self_fInterpolator = Unassigned, self_refInterpolator = Unassigned\<rparr>"

definition TransmitanceMeas1D_call ::
  "spline_lib \<Rightarrow> real pyval \<Rightarrow> real pyval \<Rightarrow> real \<Rightarrow> real
     \<Rightarrow> real pyval option \<Rightarrow> real ndarray option \<Rightarrow> real ndarray option \<Rightarrow> callable option
     \<Rightarrow> error + TransmitanceMeas1D" where
  "TransmitanceMeas1D_call CubicSpline ref meas ref_offset meas_offset dep raw_ref raw_meas
       refInterpolator =
     (case TransmitanceMeas1D_init CubicSpline new_TransmitanceMeas1D ref meas ref_offset
             meas_offset dep raw_ref raw_meas refInterpolator of
        Inl e \<Rightarrow> Inl e
      | Inr (Some msg, self) \<Rightarrow> Inl (InitTypeError msg)
      | Inr (None, self) \<Rightarrow> Inr self)"

definition get_rawest_ref :: "TransmitanceMeas1D \<Rightarrow> error + real ndarray" where
  "get_rawest_ref self =
     bind_err (read_attr ''raw_ref_'' (self_raw_ref self)) (\<lambda>raw.
       case raw of Some a \<Rightarrow> Inr a | None \<Rightarrow> read_attr ''ref_'' (self_ref self))"

definition get_rawest_meas :: "TransmitanceMeas1D \<Rightarrow> error + real ndarray" where
  "get_rawest_meas self =
     bind_err (read_attr ''raw_meas_'' (self_raw_meas self)) (\<lambda>raw.
       case raw of Some a \<Rightarrow> Inr a | None \<Rightarrow> read_attr ''meas_'' (self_meas self))"

definition get_refInterpolator :: "TransmitanceMeas1D \<Rightarrow> error + callable" where
  "get_refInterpolator self =
     bind_err (read_attr ''fInterpolator_'' (self_fInterpolator self)) (\<lambda>f.
       if truth f then read_attr ''refInterpolator_'' (self_refInterpolator self)
       else Inl (NoneReturned ''In function TransmitanceMeas1D::get_refInterpolator():ERR2: refInterpolator is not available.''))"

text \<open>
  The ragged-reconciliation factory. After its three guards all four arguments are 1-d
  arrays with \<open>dep_ref\<close> as long as \<open>ref\<close> and \<open>dep_meas\<close> as long as \<open>meas\<close>, so neither call
  of \<^const>\<open>stick_together\<close> can return its sentinel; the model passes an error of these
  calls on. A reference model applied to an array is applied entrywise.
\<close>

definition from_ragged_data ::
  "spline_lib \<Rightarrow> fit_lib \<Rightarrow> real pyval \<Rightarrow> real pyval \<Rightarrow> real pyval \<Rightarrow> real pyval \<Rightarrow> real \<Rightarrow> real
     \<Rightarrow> callable option \<Rightarrow> error + TransmitanceMeas1D" where
  "from_ragged_data CubicSpline curve_fit dep_ref ref dep_meas meas ref_offset meas_offset
       ref_ref_func =
     (if \<not> is_ndarray dep_ref \<or> \<not> is_ndarray ref \<or> \<not> is_ndarray dep_meas \<or> \<not> is_ndarray meas
      then Inl (Sentinel ''In function TransmitanceMeas1D::from_ragged_data(): ERR0.'')
      else if np_ndim dep_ref \<noteq> 1 \<or> np_ndim ref \<noteq> 1 \<or> np_ndim dep_meas \<noteq> 1 \<or> np_ndim meas \<noteq> 1
      then Inl (Sentinel ''In function TransmitanceMeas1D::from_ragged_data(): ERR1.'')
      else if np_shape dep_ref \<noteq> np_shape ref \<or> np_shape dep_meas \<noteq> np_shape meas
      then Inl (Sentinel ''In function TransmitanceMeas1D::from_ragged_data(): ERR2.'')
      else
        let raw_dep_ref = arr_of dep_ref;
            raw_ref = amap (\<lambda>x. x + ref_offset) (arr_of ref)
        in bind_err
             (case ref_ref_func of
                None \<Rightarrow> CubicSpline raw_dep_ref raw_ref
              | Some g \<Rightarrow>
                  bind_err (curve_fit (\<lambda>x sca off. sca * (off + g x)) raw_dep_ref raw_ref)
                    (\<lambda>popt. Inr (\<lambda>x. fst popt * (snd popt + g x))))
             (\<lambda>ref_func.
                let dep = arr_of dep_meas;
                    meas1 = amap (\<lambda>x. x + meas_offset) (arr_of meas);
                    ref1 = amap ref_func dep
                in bind_err (stick_together (NDArray raw_dep_ref) (NDArray raw_ref) 1) (\<lambda>raw_ref2.
                   bind_err (stick_together (NDArray dep) (NDArray meas1) 0) (\<lambda>raw_meas.
                     TransmitanceMeas1D_call CubicSpline (NDArray ref1) (NDArray meas1) 0 0
                       (Some (NDArray dep)) (Some raw_ref2) (Some raw_meas) (Some ref_func)))))"

text \<open>
  The file-based factory, on the arrays read from the files. It always calls the adapter
  with its default columns 3 and 1. \<^verbatim>\<open>np.prod(dep_ref == dep_meas)\<close> is the product of the
  entrywise comparisons taken as 0 or 1.
\<close>

definition prod_of_equalities :: "'a ndarray \<Rightarrow> 'a ndarray \<Rightarrow> nat" where
  "prod_of_equalities a b =
     prod_list (map2 (\<lambda>x y. if x = y then 1 else 0) (entries a) (entries b))"

definition files_compatible :: "'a ndarray \<Rightarrow> 'a ndarray \<Rightarrow> error + bool" where
  "files_compatible dep_ref dep_meas =
     bind_err (shape_at dep_ref 0) (\<lambda>n_ref.
     bind_err (shape_at dep_meas 0) (\<lambda>n_meas.
       Inr (n_ref = n_meas \<and> prod_of_equalities dep_ref dep_meas \<noteq> 0)))"

text \<open>Alignment of two independent-variable arrays in the specification's words: equal
  length and entrywise equality.\<close>

definition spec_aligned :: "'a list \<Rightarrow> 'a list \<Rightarrow> bool" where
  "spec_aligned xs ys = (length xs = length ys \<and> (\<forall>i<length xs. xs ! i = ys ! i))"

definition from_files ::
  "spline_lib \<Rightarrow> fit_lib \<Rightarrow> (string \<Rightarrow> real option) \<Rightarrow> cell ndarray \<Rightarrow> cell ndarray
     \<Rightarrow> cell ndarray option \<Rightarrow> error + TransmitanceMeas1D" where
  "from_files CubicSpline curve_fit pyfloat ref_file meas_file ref_ref_file =
     bind_err (default_parser pyfloat ref_file 3 1) (\<lambda>parsed_ref.
     bind_err (default_parser pyfloat meas_file 3 1) (\<lambda>parsed_meas.
       let dep_ref = fst parsed_ref; ref = snd parsed_ref;
           dep_meas = fst parsed_meas; meas = snd parsed_meas
       in bind_err (files_compatible dep_ref dep_meas) (\<lambda>compatible.
         if \<not> compatible then
           (case ref_ref_file of
              Some third_file \<Rightarrow>
                bind_err (default_parser pyfloat third_file 3 1) (\<lambda>parsed_ref_ref.
                bind_err (CubicSpline (fst parsed_ref_ref) (snd parsed_ref_ref)) (\<lambda>ref_ref_func.
                  from_ragged_data CubicSpline curve_fit (NDArray dep_ref) (NDArray ref)
                    (NDArray dep_meas) (NDArray meas) 0 0 (Some ref_ref_func)))
            | None \<Rightarrow>
                from_ragged_data CubicSpline curve_fit (NDArray dep_ref) (NDArray ref)
                  (NDArray dep_meas) (NDArray meas) 0 0 None)
         else
           TransmitanceMeas1D_call CubicSpline (NDArray ref) (NDArray meas) 0 0
             (Some (NDArray dep_ref)) None None None)))"

section \<open>The collection class \<^verbatim>\<open>ObjectCollection\<close>\<close>

text \<open>Members are values of any type \<open>'m\<close>; \<open>type_of\<close> gives the runtime type of a member
  (Python's \<^verbatim>\<open>type\<close>), a value of \<open>'t\<close>.\<close>

record ('m, 't) ObjectCollection =
  self_member_types :: "'t list"
  self_fRestrictive :: bool
  self_fRestrictivenessIsLocked :: bool
  self_name :: string
  self_ID :: nat
  self_members :: "'m list"

text \<open>The initializer draws the identifier from the class-level counter \<^verbatim>\<open>next_id_\<close>, which
  is threaded through as a number; the result carries the incremented counter.\<close>

definition get_new_ID :: "nat \<Rightarrow> nat \<times> nat" where
  "get_new_ID next_id = (next_id + 1 - 1, next_id + 1)"

definition set_collection_name ::
  "string \<Rightarrow> ('m, 't) ObjectCollection \<Rightarrow> ('m, 't) ObjectCollection" where
  "set_collection_name new_name self = self\<lparr>self_name := new_name\<rparr>"

definition get_restrictive :: "('m, 't) ObjectCollection \<Rightarrow> bool" where
  "get_restrictive self = self_fRestrictive self"

definition lock_restrictiveness :: "('m, 't) ObjectCollection \<Rightarrow> ('m, 't) ObjectCollection" where
  "lock_restrictiveness self = self\<lparr>self_fRestrictivenessIsLocked := True\<rparr>"

definition get_collection_size :: "('m, 't) ObjectCollection \<Rightarrow> nat" where
  "get_collection_size self = length (self_members self)"

text \<open>The loop of \<^verbatim>\<open>switch_restrictiveness\<close> that appends the type of every member not yet
  in \<^verbatim>\<open>member_types_\<close>.\<close>

definition collect_member_types :: "('m \<Rightarrow> 't) \<Rightarrow> 'm list \<Rightarrow> 't list \<Rightarrow> 't list" where
  "collect_member_types type_of ms types =
     foldl (\<lambda>ts i. if type_of (ms ! i) \<notin> set ts then ts @ [type_of (ms ! i)] else ts)
       types [0..<length ms]"

definition switch_restrictiveness ::
  "('m \<Rightarrow> 't) \<Rightarrow> ('m, 't) ObjectCollection \<Rightarrow> ('m, 't) ObjectCollection" where
  "switch_restrictiveness type_of self =
     (if \<not> self_fRestrictivenessIsLocked self then
        (let self1 =
           (if self_fRestrictive self = False
            then self\<lparr>self_member_types :=
                        collect_member_types type_of (self_members self) (self_member_types self)\<rparr>
            else self)
         in self1\<lparr>self_fRestrictive := \<not> self_fRestrictive self1\<rparr>)
      else self)"

definition try_adding_an_element ::
  "('m \<Rightarrow> 't) \<Rightarrow> 'm \<Rightarrow> ('m, 't) ObjectCollection \<Rightarrow> ('m, 't) ObjectCollection" where
  "try_adding_an_element type_of candidate_element self =
     (if self_fRestrictive self = False
      then self\<lparr>self_members := self_members self @ [candidate_element]\<rparr>
      else if type_of candidate_element \<in> set (self_member_types self)
      then self\<lparr>self_members := self_members self @ [candidate_element]\<rparr>
      else self)"

definition ObjectCollection_init ::
  "('m \<Rightarrow> 't) \<Rightarrow> nat \<Rightarrow> string \<Rightarrow> 't list option \<Rightarrow> 'm list option \<Rightarrow> bool
     \<Rightarrow> ('m, 't) ObjectCollection \<times> nat" where
  "ObjectCollection_init type_of next_id collection_name member_types init_members restrictive =
     (let (new_id, next_id1) = get_new_ID next_id;
          self = \<lparr>self_member_types = (case member_types of None \<Rightarrow> [] | Some ts \<Rightarrow> ts),
                  self_fRestrictive = restrictive,
                  self_fRestrictivenessIsLocked = False,
                  self_name = collection_name,
                  self_ID = new_id,
                  self_members = []\<rparr>
      in (foldl (\<lambda>s m. try_adding_an_element type_of m s) self
            (case init_members of None \<Rightarrow> [] | Some ms \<Rightarrow> ms),
          next_id1))"

text \<open>The operations that change a collection, and a run of a sequence of them. The
  getters and the printing method change nothing.\<close>

datatype 'm operation =
    SetCollectionName string
  | LockRestrictiveness
  | SwitchRestrictiveness
  | TryAddingAnElement 'm

fun apply_operation ::
  "('m \<Rightarrow> 't) \<Rightarrow> 'm operation \<Rightarrow> ('m, 't) ObjectCollection \<Rightarrow> ('m, 't) ObjectCollection" where
  "apply_operation type_of (SetCollectionName n) self = set_collection_name n self"
| "apply_operation type_of LockRestrictiveness self = lock_restrictiveness self"
| "apply_operation type_of SwitchRestrictiveness self = switch_restrictiveness type_of self"
| "apply_operation type_of (TryAddingAnElement m) self = try_adding_an_element type_of m self"

definition run_operations ::
  "('m \<Rightarrow> 't) \<Rightarrow> 'm operation list \<Rightarrow> ('m, 't) ObjectCollection \<Rightarrow> ('m, 't) ObjectCollection" where
  "run_operations type_of ops self = foldl (\<lambda>s op. apply_operation type_of op s) self ops"

section \<open>Stand-ins for the library parameters at concrete inputs\<close>

text \<open>
  Used only to instantiate theorems at concrete inputs: a reading of a few decimal
  strings for Python's \<^verbatim>\<open>float\<close>; a spline constructor that accepts at least two strictly
  increasing knots with as many values and returns a function taking each knot to its
  value (as an interpolant does) and every other point to the first value; and a fit that
  returns scale 1 and offset 0.
\<close>

definition example_float :: "string \<Rightarrow> real option" where
  "example_float s =
     map_of [(''100'', 100), (''200'', 200), (''300'', 300), (''400'', 400), (''500'', 500)] s"

definition example_spline :: spline_lib where
  "example_spline x y =
     (if length (entries x) < 2 \<or> length (entries x) \<noteq> length (entries y)
         \<or> \<not> sorted_wrt (<) (entries x)
      then Inl ValueError
      else Inr (\<lambda>t. case map_of (zip (entries x) (entries y)) t of
                       Some v \<Rightarrow> v
                     | None \<Rightarrow> hd (entries y)))"

definition example_fit :: fit_lib where
  "example_fit f x y = Inr (1, 0)"

text \<open>The rows of a small instrument log after its header: the dark-current row, then
  four measurements taken at descending wavelengths.\<close>

definition example_rows :: "cell list list" where
  "example_rows =
     [[Num 0, Num 5, Num 7, Str ''DC''],
      [Num 1, Num 15, Num 27, Str ''400''],
      [Num 2, Num 25, Num 37, Str ''300''],
      [Num 3, Num 35, Num 47, Str ''200''],
      [Num 4, Num 45, Num 57, Str ''100'']]"

text \<open>A second log, taken at wavelengths shifted by one step.\<close>

definition example_rows_shifted :: "cell list list" where
  "example_rows_shifted =
     [[Num 0, Num 1, Num 2, Str ''DC''],
      [Num 1, Num 3, Num 4, Str ''500''],
      [Num 2, Num 5, Num 6, Str ''400''],
      [Num 3, Num 7, Num 8, Str ''300''],
      [Num 4, Num 9, Num 10, Str ''200'']]"

section \<open>Verified properties\<close>

subsection \<open>Basic facts about the array model\<close>

lemma bind_err_simps [simp]:
  "bind_err (Inl e) f = Inl e" "bind_err (Inr v) f = f v"
  by (simp_all add: bind_err_def)

lemma ndim_simps [simp]:
  "ndim (Arr0 x) = 0" "ndim (Arr1 xs) = 1" "ndim (Arr2 c rows) = 2"
  "ndim (ArrN d0 d1 d2 ds es) = 3 + length ds"
  by (simp_all add: ndim_def)

subsection \<open>Stacking\<close>

lemma stick_together_rows:
  "length xs = length ys \<Longrightarrow>
   stick_together (NDArray (Arr1 xs)) (NDArray (Arr1 ys)) 0 = Inr (Arr2 (length xs) [xs, ys])"
  by (simp add: stick_together_def np_ndim_def stick_1d_1d_def shape_at_def expand_dims_def
      concatenate_def)

lemma stick_together_columns:
  "length xs = length ys \<Longrightarrow>
   stick_together (NDArray (Arr1 xs)) (NDArray (Arr1 ys)) 1
     = Inr (Arr2 2 (map2 (\<lambda>x y. [x, y]) xs ys))"
  by (simp add: stick_together_def np_ndim_def stick_1d_1d_def shape_at_def expand_dims_def
      concatenate_def zip_map1 zip_map2 case_prod_beta)

lemma stick_together_mismatch:
  "ndim a \<in> {1, 2} \<Longrightarrow> ndim b \<in> {1, 2} \<Longrightarrow> other_extent a axis \<noteq> other_extent b axis \<Longrightarrow>
   is_sentinel (stick_together (NDArray a) (NDArray b) axis)"
  by (cases a; cases b)
     (auto simp add: stick_together_def np_ndim_def stick_1d_1d_def stick_1d_2d_def shape_at_def
      other_extent_def is_sentinel_def not_axis_def Let_def)

text \<open>
  Claim C8. Stacking two 1-d arrays of equal length \<open>n\<close> along axis 0 returns the 2-by-\<open>n\<close>
  array whose row 0 is the first input and whose row 1 is the second. Whenever the two
  operands (each 1-d or 2-d) disagree in their extent along the non-target axis, the call
  does not return a concatenation: it prints an error and returns the sentinel.
\<close>

theorem stick_together_axis0_and_mismatch:
  "(length xs = length ys \<longrightarrow>
      stick_together (NDArray (Arr1 xs)) (NDArray (Arr1 ys)) 0 = Inr (Arr2 (length xs) [xs, ys]))
   \<and> (ndim a \<in> {1, 2} \<and> ndim b \<in> {1, 2} \<and> other_extent a axis \<noteq> other_extent b axis \<longrightarrow>
      is_sentinel (stick_together (NDArray a) (NDArray b) axis))"
  using stick_together_rows stick_together_mismatch by blast

theorem stick_together_axis0_and_mismatch_witness:
  "stick_together (NDArray (Arr1 [1, 2, 3 :: real])) (NDArray (Arr1 [4, 5, 6])) 0
     = Inr (Arr2 3 [[1, 2, 3], [4, 5, 6]])
   \<and> is_sentinel (stick_together (NDArray (Arr1 [1, 2 :: real])) (NDArray (Arr2 3 [[7, 8, 9]])) 0)"
  using stick_together_axis0_and_mismatch
    [of "[1, 2, 3 :: real]" "[4, 5, 6]" "Arr1 [1, 2 :: real]" "Arr2 3 [[7, 8, 9]]" 0]
  by (simp add: other_extent_def not_axis_def)

subsection \<open>Sorting\<close>

lemma argsort_length [simp]: "length (argsort ks) = length ks"
  by (simp add: argsort_def)

lemma argsort_mset: "mset (argsort ks) = mset [0..<length ks]"
  by (simp add: argsort_def)

lemma argsort_set: "set (argsort ks) = {..<length ks}"
  by (auto simp add: argsort_def)

lemma argsort_sorted: "sorted (map (\<lambda>i. ks ! i) (argsort ks))"
  by (simp add: argsort_def)

lemma columns_loop_inv:
  assumes wf: "\<forall>r\<in>set rows. length r = c"
    and len: "length idx = length rows"
    and bnd: "\<forall>p\<in>set idx. p < length rows"
  shows "k \<le> c \<Longrightarrow>
         length (columns_loop idx [0..<k] rows) = length rows \<and>
         (\<forall>r<length rows. columns_loop idx [0..<k] rows ! r
                             = take k (rows ! (idx ! r)) @ drop k (rows ! r))"
proof (induction k)
  case 0
  show ?case by (simp add: columns_loop_def)
next
  case (Suc k)
  let ?A = "columns_loop idx [0..<k] rows"
  have ih: "length ?A = length rows"
    "\<And>r. r < length rows \<Longrightarrow> ?A ! r = take k (rows ! (idx ! r)) @ drop k (rows ! r)"
    using Suc by simp_all
  have step: "columns_loop idx [0..<Suc k] rows = assign_column k (fancy_column idx k ?A) ?A"
    by (simp add: columns_loop_def)
  have lenr: "\<And>r. r < length rows \<Longrightarrow> length (rows ! r) = c"
    using wf by simp
  have idxr: "\<And>r. r < length rows \<Longrightarrow> idx ! r < length rows"
    using bnd len by simp
  have colk: "\<And>p. p < length rows \<Longrightarrow> ?A ! p ! k = rows ! p ! k"
  proof -
    fix p assume p: "p < length rows"
    have "length (take k (rows ! (idx ! p))) = k"
      using lenr [OF idxr [OF p]] Suc.prems by simp
    then show "?A ! p ! k = rows ! p ! k"
      using ih(2) [OF p] lenr [OF p] Suc.prems by (simp add: nth_append)
  qed
  have l1: "length (columns_loop idx [0..<Suc k] rows) = length rows"
    unfolding step by (simp add: assign_column_def fancy_column_def ih(1) len)
  have l2: "columns_loop idx [0..<Suc k] rows ! r
              = take (Suc k) (rows ! (idx ! r)) @ drop (Suc k) (rows ! r)"
    if r: "r < length rows" for r
  proof -
    have a: "columns_loop idx [0..<Suc k] rows ! r = (?A ! r)[k := rows ! (idx ! r) ! k]"
      unfolding step using r colk [OF idxr [OF r]]
      by (simp add: assign_column_def fancy_column_def ih(1) len)
    have b: "length (rows ! (idx ! r)) = c" "length (rows ! r) = c"
      using lenr r idxr by simp_all
    show ?thesis
      unfolding a ih(2) [OF r]
      using b Suc.prems
      by (intro nth_equalityI) (auto simp add: nth_append nth_list_update less_Suc_eq)
  qed
  show ?case using l1 l2 by simp
qed


lemma columns_loop_permutes:
  assumes "\<forall>r\<in>set rows. length r = c" "length idx = length rows" "\<forall>p\<in>set idx. p < length rows"
  shows "columns_loop idx [0..<c] rows = map (\<lambda>p. rows ! p) idx"
proof (rule nth_equalityI)
  have inv: "length (columns_loop idx [0..<c] rows) = length rows"
    "\<And>r. r < length rows \<Longrightarrow>
       columns_loop idx [0..<c] rows ! r = take c (rows ! (idx ! r)) @ drop c (rows ! r)"
    using columns_loop_inv [OF assms, of c] by simp_all
  show "length (columns_loop idx [0..<c] rows) = length (map (\<lambda>p. rows ! p) idx)"
    using inv(1) assms(2) by simp
  fix r assume "r < length (columns_loop idx [0..<c] rows)"
  then have r: "r < length rows" using inv(1) by simp
  then have "idx ! r < length rows" using assms(2,3) by simp
  then have "length (rows ! (idx ! r)) = c" "length (rows ! r) = c"
    using assms(1) r by simp_all
  then show "columns_loop idx [0..<c] rows ! r = map (\<lambda>p. rows ! p) idx ! r"
    using inv(2) [OF r] r assms(2) by simp
qed

lemma sorted_contents_axis0:
  assumes "wf_array (Arr2 c rows)" "k < length rows" "k < c"
  shows "sorted_contents (Arr2 c rows) 0 (int k)
           = Inr (Arr2 c (map (\<lambda>p. rows ! p) (argsort (column k rows))))"
proof -
  have "columns_loop (argsort (column k rows)) [0..<c] rows
          = map (\<lambda>p. rows ! p) (argsort (column k rows))"
    using assms(1)
    by (intro columns_loop_permutes) (auto simp add: list_all_iff argsort_set column_def)
  then show ?thesis
    using assms(2,3) by (simp add: sorted_contents_def shape_at_def)
qed

lemma sorted_contents_axis0_guard:
  assumes "length rows \<le> k"
  shows "sorted_contents (Arr2 c rows) 0 (int k)
           = Inl (Sentinel ''In function sort_bidimensional_array_mutually(): Not allowed value for line. Returning -1.'')"
  using assms by (simp add: sorted_contents_def shape_at_def)

lemma permuted_rows_sorted:
  assumes "wf_array (Arr2 c rows)" "k < c"
  shows "sorted (column k (map (\<lambda>p. rows ! p) (argsort (column k rows))))"
proof -
  have "column k (map (\<lambda>p. rows ! p) (argsort (column k rows)))
          = map (\<lambda>i. column k rows ! i) (argsort (column k rows))"
    by (auto simp add: column_def argsort_set)
  then show ?thesis using argsort_sorted by metis
qed

lemma permuted_rows_mset:
  "mset (map (\<lambda>p. rows ! p) (argsort (column k rows))) = mset rows"
proof -
  have "mset (map (\<lambda>p. rows ! p) (argsort (column k rows)))
          = image_mset (\<lambda>p. rows ! p) (mset (argsort (column k rows)))"
    by simp
  also have "\<dots> = image_mset (\<lambda>p. rows ! p) (mset [0..<length rows])"
    by (simp add: argsort_mset column_def)
  also have "\<dots> = mset (map (\<lambda>p. rows ! p) [0..<length rows])"
    by simp
  also have "\<dots> = mset rows"
    by (simp add: map_nth)
  finally show ?thesis .
qed

lemma sort_returns_its_argument:
  "fst (sort_bidimensional_array_mutually h p axis line) = Inr q \<Longrightarrow> q = p"
  by (auto simp add: sort_bidimensional_array_mutually_def split: sum.splits)

lemma sort_axis0_when_guard_passes:
  assumes "h p = Arr2 c rows" "wf_array (Arr2 c rows)" "k < length rows" "k < c"
  shows "\<exists>rows'. sort_bidimensional_array_mutually h p 0 (int k) = (Inr p, h(p := Arr2 c rows'))
           \<and> sorted (column k rows') \<and> mset rows' = mset rows"
proof (intro exI conjI)
  show "sort_bidimensional_array_mutually h p 0 (int k)
          = (Inr p, h(p := Arr2 c (map (\<lambda>p. rows ! p) (argsort (column k rows)))))"
    using assms(1) sorted_contents_axis0 [OF assms(2,3,4)]
    by (simp add: sort_bidimensional_array_mutually_def)
  show "sorted (column k (map (\<lambda>p. rows ! p) (argsort (column k rows))))"
    using permuted_rows_sorted [OF assms(2,4)] .
  show "mset (map (\<lambda>p. rows ! p) (argsort (column k rows))) = mset rows"
    using permuted_rows_mset .
qed

text \<open>
  Claim C4 (fails on the code). The docstring promises a sorted copy, but
  \<^verbatim>\<open>sorted_array = bid_array\<close> only binds a second name: the loop writes into the caller's
  array and the reference returned is the caller's own. On the store whose object 0 is
  \<^verbatim>\<open>[[2, 20], [1, 10]]\<close>, sorting by column 0 returns reference 0, and object 0 is
  \<^verbatim>\<open>[[1, 10], [2, 20]]\<close> afterwards: the input has changed and no distinct array exists.
\<close>

theorem sort_overwrites_its_input:
  "fst (sort_bidimensional_array_mutually (\<lambda>a. Arr2 2 [[2, 20], [1, 10 :: real]]) 0 0 0) = Inr 0
   \<and> snd (sort_bidimensional_array_mutually (\<lambda>a. Arr2 2 [[2, 20], [1, 10 :: real]]) 0 0 0) 0
       = Arr2 2 [[1, 10], [2, 20]]
   \<and> snd (sort_bidimensional_array_mutually (\<lambda>a. Arr2 2 [[2, 20], [1, 10 :: real]]) 0 0 0) 0
       \<noteq> (\<lambda>a. Arr2 2 [[2, 20], [1, 10 :: real]]) 0"
  by (simp add: sort_bidimensional_array_mutually_def sorted_contents_def shape_at_def
      argsort_def column_def columns_loop_def assign_column_def fancy_column_def upt_rec)

text \<open>
  Claim C5 (fails on the code). For \<^verbatim>\<open>axis = 0\<close> the key index \<^verbatim>\<open>line\<close> is a column index,
  but the range guard compares it with \<^verbatim>\<open>shape[0]\<close>, the number of rows. On the 1-by-2
  array \<^verbatim>\<open>[[3, 1]]\<close> the in-range column index 1 is rejected: the call prints an error and
  returns \<^verbatim>\<open>-1.\<close> instead of a sorted array, and the store is as before.
\<close>

theorem sort_rejects_in_range_column:
  "sort_bidimensional_array_mutually (\<lambda>a. Arr2 2 [[3, 1 :: real]]) 0 0 1
     = (Inl (Sentinel ''In function sort_bidimensional_array_mutually(): Not allowed value for line. Returning -1.''),
        \<lambda>a. Arr2 2 [[3, 1]])"
  by (simp add: sort_bidimensional_array_mutually_def sorted_contents_def shape_at_def)

subsection \<open>The base class\<close>

lemma read_attr_simps [simp]:
  "read_attr n Unassigned = Inl (AttributeError n)" "read_attr n (Assigned v) = Inr v"
  by (simp_all add: read_attr_def)

lemma concat_map2_map2:
  assumes "length rows = length rows'"
    and "\<forall>i<length rows. length (rows ! i) = length (rows' ! i)"
  shows "concat (map2 (map2 f) rows rows') = map2 f (concat rows) (concat rows')"
  using assms
proof (induction rows rows' rule: list_induct2)
  case Nil
  show ?case by simp
next
  case (Cons r rows r' rows')
  have "length r = length r'" using Cons.prems by auto
  moreover have "\<forall>i<length rows. length (rows ! i) = length (rows' ! i)"
    using Cons.prems by auto
  ultimately show ?case using Cons.IH by (simp add: zip_append)
qed

lemma azip_entries:
  assumes "azip f a b = Some q" "wf_array a" "wf_array b"
  shows "shape q = shape a \<and> entries q = map2 f (entries a) (entries b)"
proof (cases a)
  case (Arr2 c rows)
  then obtain rows' where b: "b = Arr2 c rows'" and len: "length rows = length rows'"
    and q: "q = Arr2 c (map2 (map2 f) rows rows')"
    using assms(1) by (cases b) (auto split: if_splits)
  have "\<forall>i<length rows. length (rows ! i) = length (rows' ! i)"
    using assms(2,3) len by (simp add: Arr2 b list_all_length)
  then show ?thesis
    using len by (simp add: Arr2 b q concat_map2_map2)
qed (use assms(1) in \<open>cases b; auto split: if_splits\<close>)+

lemma azip_same_shape:
  assumes "shape a = shape b"
  shows "\<exists>q. azip f a b = Some q"
  using assms by (cases a; cases b) auto

text \<open>
  Claim C2. Let an instance hold a reference array \<open>r\<close> and a filtered array \<open>m\<close> (and an
  independent array \<open>d\<close> when one is available). Then \<^verbatim>\<open>check_compatibility\<close> returns true
  exactly when \<open>r\<close> and \<open>m\<close> have the same shape and, when \<open>d\<close> is available, \<open>d\<close> has that
  shape too. When these equalities hold and \<open>r\<close> has no zero entry, \<^verbatim>\<open>get_transmitance\<close>
  returns an array of that shape whose entries are the quotients \<open>m / r\<close>, entry by entry.
\<close>

theorem ratio_and_compatibility:
  assumes "self_ref self = Assigned r" "self_meas self = Assigned m"
    and "self_dep_is_available self = Assigned available"
    and "available \<longrightarrow> self_dep self = Assigned d"
    and "wf_array r" "wf_array m"
  shows "check_compatibility self = Inr (shape r = shape m \<and> (available \<longrightarrow> shape r = np_shape d))
     \<and> (shape r = shape m \<and> (available \<longrightarrow> shape r = np_shape d) \<and> 0 \<notin> set (entries r) \<longrightarrow>
          (\<exists>t. fst (get_transmitance self) = Inr t \<and> shape t = shape r
               \<and> entries t = map2 (\<lambda>x y. x / y) (entries m) (entries r)))"
proof -
  have cc: "check_compatibility self = Inr (shape r = shape m \<and> (available \<longrightarrow> shape r = np_shape d))"
    using assms(1-4) by (auto simp add: check_compatibility_def)
  have "\<exists>t. fst (get_transmitance self) = Inr t \<and> shape t = shape r
               \<and> entries t = map2 (\<lambda>x y. x / y) (entries m) (entries r)"
    if ok: "shape r = shape m \<and> (available \<longrightarrow> shape r = np_shape d)"
  proof -
    obtain t where t: "azip (\<lambda>x y. x / y) m r = Some t"
      using azip_same_shape [of m r] ok by auto
    have "check_compatibility self = Inr True"
      using cc ok by auto
    then have "fst (get_transmitance self) = Inr t"
      using t assms(1,2) by (simp add: get_transmitance_def)
    moreover have "shape t = shape r \<and> entries t = map2 (\<lambda>x y. x / y) (entries m) (entries r)"
      using azip_entries [OF t assms(6,5)] ok by simp
    ultimately show ?thesis by blast
  qed
  then show ?thesis using cc by blast
qed

theorem ratio_and_compatibility_witness:
  "check_compatibility
     \<lparr>self_dep_is_available = Assigned True, self_dep = Assigned (NDArray (Arr1 [1, 2, 3])),
      self_ref = Assigned (Arr1 [10, 20, 40]), self_meas = Assigned (Arr1 [5, 5, 10]),
      self_transmitance = Unassigned\<rparr> = Inr True
   \<and> (\<exists>t. fst (get_transmitance
        \<lparr>self_dep_is_available = Assigned True, self_dep = Assigned (NDArray (Arr1 [1, 2, 3])),
         self_ref = Assigned (Arr1 [10, 20, 40]), self_meas = Assigned (Arr1 [5, 5, 10]),
         self_transmitance = Unassigned\<rparr>) = Inr t
      \<and> shape t = [3] \<and> entries t = [1 / 2, 1 / 4, 1 / 4])"
  using ratio_and_compatibility [of "\<lparr>self_dep_is_available = Assigned True, self_dep = Assigned (NDArray (Arr1 [1, 2, 3])),
      self_ref = Assigned (Arr1 [10, 20, 40]), self_meas = Assigned (Arr1 [5, 5, 10]),
      self_transmitance = Unassigned\<rparr>" "Arr1 [10, 20, 40]" "Arr1 [5, 5, 10]" True "NDArray (Arr1 [1, 2, 3])"]
  by (simp add: np_shape_def eval_nat_numeral)

text \<open>
  Claim C6. Calling the class \<^verbatim>\<open>TransmitanceMeas\<close> on two arrays of different shapes
  prints the shape error ERR1 and yields no instance: the initializer returns before
  storing anything and instance creation fails. The same happens, with ERR2, when the
  two arrays agree in shape and an independent array of another shape is given.
\<close>

theorem mismatched_shapes_abort_construction:
  "(np_shape (NDArray ref) \<noteq> np_shape (NDArray meas) \<longrightarrow>
      TransmitanceMeas_call (NDArray ref) (NDArray meas) ref_offset meas_offset dep
        = Inl (InitTypeError ''In method TransmitanceMeas::__init__(): ERR1.''))
   \<and> (np_shape (NDArray ref) = np_shape (NDArray meas) \<and> np_shape d \<noteq> np_shape (NDArray ref) \<longrightarrow>
      TransmitanceMeas_call (NDArray ref) (NDArray meas) ref_offset meas_offset (Some d)
        = Inl (InitTypeError ''In method TransmitanceMeas::__init__(): ERR2.''))"
  by (simp add: TransmitanceMeas_call_def TransmitanceMeas_init_def Let_def)

theorem mismatched_shapes_abort_construction_witness:
  "TransmitanceMeas_call (NDArray (Arr1 [1, 2, 3, 4, 5])) (NDArray (Arr1 [1, 2, 3, 4])) 0 0 None
     = Inl (InitTypeError ''In method TransmitanceMeas::__init__(): ERR1.'')
   \<and> TransmitanceMeas_call (NDArray (Arr1 [1, 2])) (NDArray (Arr1 [3, 4])) 0 0
        (Some (NDArray (Arr1 [1, 2, 3])))
     = Inl (InitTypeError ''In method TransmitanceMeas::__init__(): ERR2.'')"
  using mismatched_shapes_abort_construction [where ref = "Arr1 [1, 2, 3, 4, 5]" and meas = "Arr1 [1, 2, 3, 4]"
        and ref_offset = 0 and meas_offset = 0 and dep = None]
    mismatched_shapes_abort_construction [where ref = "Arr1 [1, 2]" and meas = "Arr1 [3, 4]" and ref_offset = 0 and meas_offset = 0
        and d = "NDArray (Arr1 [1, 2, 3])"]
  by (simp add: np_shape_def)


subsection \<open>The 1-d class and the ragged factory\<close>

lemma bind_err_Inr_iff:
  "bind_err r f = Inr y \<longleftrightarrow> (\<exists>v. r = Inr v \<and> f v = Inr y)"
  by (cases r) simp_all

lemma base_init_frame:
  "TransmitanceMeas.more (snd (TransmitanceMeas_init self ref meas ro mo dep))
     = TransmitanceMeas.more self"
  by (simp add: TransmitanceMeas_init_def Let_def split: option.splits)

lemma base_init_frame_1d:
  fixes self :: TransmitanceMeas1D
  shows "self_raw_ref (snd (TransmitanceMeas_init self ref meas ro mo dep)) = self_raw_ref self"
    and "self_raw_meas (snd (TransmitanceMeas_init self ref meas ro mo dep)) = self_raw_meas self"
    and "self_fInterpolator (snd (TransmitanceMeas_init self ref meas ro mo dep))
           = self_fInterpolator self"
    and "self_refInterpolator (snd (TransmitanceMeas_init self ref meas ro mo dep))
           = self_refInterpolator self"
  by (simp_all add: TransmitanceMeas_init_def Let_def split: option.splits)

lemma call_1d_fields:
  assumes "TransmitanceMeas1D_call cs ref meas ro mo dep rr rm ri = Inr obj"
  shows "self_raw_ref obj = Assigned rr" "self_raw_meas obj = Assigned rm"
    and "ri = None \<Longrightarrow> self_refInterpolator obj = Unassigned"
    and "ri = None \<Longrightarrow> dep \<noteq> None \<Longrightarrow> self_fInterpolator obj = Assigned (Flag True)"
  using assms
  by (auto simp add: TransmitanceMeas1D_call_def TransmitanceMeas1D_init_def Let_def
      new_TransmitanceMeas1D_def base_init_frame_1d bind_err_Inr_iff
      split: if_splits option.splits sum.splits prod.splits)

text \<open>
  Claim C1 (fails on the code). Whenever the class \<^verbatim>\<open>TransmitanceMeas1D\<close> is called with
  an independent array and without a reference model and returns an instance, the
  initializer has assigned the spline to \<^verbatim>\<open>fInterpolator_\<close> and overwritten it with
  \<^verbatim>\<open>True\<close>; \<^verbatim>\<open>refInterpolator_\<close> was never assigned, and \<^verbatim>\<open>get_refInterpolator\<close> raises
  AttributeError instead of returning the interpolant.
\<close>

theorem direct_construction_leaves_model_unassigned:
  assumes "TransmitanceMeas1D_call cs ref meas ro mo (Some dep) rr rm None = Inr obj"
  shows "get_refInterpolator obj = Inl (AttributeError ''refInterpolator_'')"
  using call_1d_fields(3,4) [OF assms]
  by (simp add: get_refInterpolator_def read_attr_def)

theorem direct_construction_leaves_model_unassigned_witness:
  "\<exists>obj. TransmitanceMeas1D_call example_spline (NDArray (Arr1 [10, 20, 30]))
            (NDArray (Arr1 [5, 5, 5])) 0 0 (Some (NDArray (Arr1 [1, 2, 3]))) None None None = Inr obj
         \<and> get_refInterpolator obj = Inl (AttributeError ''refInterpolator_'')"
proof -
  have "\<exists>obj. TransmitanceMeas1D_call example_spline (NDArray (Arr1 [10, 20, 30]))
            (NDArray (Arr1 [5, 5, 5])) 0 0 (Some (NDArray (Arr1 [1, 2, 3]))) None None None = Inr obj"
    by (simp add: TransmitanceMeas1D_call_def TransmitanceMeas1D_init_def np_ndim_def np_shape_def
        example_spline_def Let_def)
  then show ?thesis using direct_construction_leaves_model_unassigned by blast
qed

text \<open>
  Claim C3 (fails on the code). After a successful call of \<^verbatim>\<open>from_ragged_data\<close> on 1-d
  arrays, \<^verbatim>\<open>raw_ref_\<close> is the two-column array of the pairs (\<^verbatim>\<open>stick_together\<close> with
  \<^verbatim>\<open>axis=1\<close>), but \<^verbatim>\<open>raw_meas_\<close> was stacked with the default \<^verbatim>\<open>axis=0\<close>: it is the
  two-row array whose row 0 holds the independent values and whose row 1 holds the
  filtered values, of shape (2, n) and not (n, 2).
\<close>

theorem ragged_raw_arrays:
  assumes "from_ragged_data cs fit (NDArray (Arr1 dr)) (NDArray (Arr1 r)) (NDArray (Arr1 dm))
             (NDArray (Arr1 m)) ro mo g = Inr obj"
  shows "self_raw_ref obj
           = Assigned (Some (Arr2 2 (map2 (\<lambda>x y. [x, y]) dr (map (\<lambda>x. x + ro) r))))
       \<and> self_raw_meas obj = Assigned (Some (Arr2 (length dm) [dm, map (\<lambda>x. x + mo) m]))"
proof -
  have len: "length dr = length r" "length dm = length m"
    using assms by (auto simp add: from_ragged_data_def np_shape_def split: if_splits)
  have s1: "stick_together (NDArray (Arr1 dr)) (NDArray (Arr1 (map (\<lambda>x. x + ro) r))) 1
              = Inr (Arr2 2 (map2 (\<lambda>x y. [x, y]) dr (map (\<lambda>x. x + ro) r)))"
    using len stick_together_columns [of dr "map (\<lambda>x. x + ro) r"] by simp
  have s2: "stick_together (NDArray (Arr1 dm)) (NDArray (Arr1 (map (\<lambda>x. x + mo) m))) 0
              = Inr (Arr2 (length dm) [dm, map (\<lambda>x. x + mo) m])"
    using len stick_together_rows [of dm "map (\<lambda>x. x + mo) m"] by simp
  obtain f ref1 where
    "TransmitanceMeas1D_call cs (NDArray ref1) (NDArray (Arr1 (map (\<lambda>x. x + mo) m))) 0 0
       (Some (NDArray (Arr1 dm)))
       (Some (Arr2 2 (map2 (\<lambda>x y. [x, y]) dr (map (\<lambda>x. x + ro) r))))
       (Some (Arr2 (length dm) [dm, map (\<lambda>x. x + mo) m])) (Some f) = Inr obj"
    using assms len s1 s2
    by (auto simp add: from_ragged_data_def np_shape_def np_ndim_def Let_def bind_err_Inr_iff
        split: if_splits)
  then show ?thesis
    using call_1d_fields(1,2) by blast
qed

theorem ragged_raw_arrays_witness:
  "\<exists>obj. from_ragged_data example_spline example_fit (NDArray (Arr1 [0, 1, 2, 3]))
            (NDArray (Arr1 [1, 2, 3, 4])) (NDArray (Arr1 [1 / 2, 3 / 2, 5 / 2]))
            (NDArray (Arr1 [1, 1, 1])) 0 0 None = Inr obj
         \<and> self_raw_ref obj = Assigned (Some (Arr2 2 [[0, 1], [1, 2], [2, 3], [3, 4]]))
         \<and> self_raw_meas obj = Assigned (Some (Arr2 3 [[1 / 2, 3 / 2, 5 / 2], [1, 1, 1]]))"
proof -
  have "\<exists>obj. from_ragged_data example_spline example_fit (NDArray (Arr1 [0, 1, 2, 3]))
            (NDArray (Arr1 [1, 2, 3, 4])) (NDArray (Arr1 [1 / 2, 3 / 2, 5 / 2]))
            (NDArray (Arr1 [1, 1, 1])) 0 0 None = Inr obj"
    by (simp add: from_ragged_data_def TransmitanceMeas1D_call_def TransmitanceMeas1D_init_def
        np_ndim_def np_shape_def example_spline_def Let_def stick_together_def stick_1d_1d_def
        shape_at_def expand_dims_def concatenate_def)
  then obtain obj where obj: "from_ragged_data example_spline example_fit (NDArray (Arr1 [0, 1, 2, 3]))
            (NDArray (Arr1 [1, 2, 3, 4])) (NDArray (Arr1 [1 / 2, 3 / 2, 5 / 2]))
            (NDArray (Arr1 [1, 1, 1])) 0 0 None = Inr obj" by blast
  show ?thesis using obj ragged_raw_arrays [OF obj] by auto
qed


subsection \<open>The collection\<close>

lemma run_operations_snoc:
  "run_operations ty (ops @ [op]) s = apply_operation ty op (run_operations ty ops s)"
  by (simp add: run_operations_def)

lemma locked_frame:
  assumes "self_fRestrictivenessIsLocked s"
  shows "self_fRestrictivenessIsLocked (apply_operation ty op s)
       \<and> self_fRestrictive (apply_operation ty op s) = self_fRestrictive s
       \<and> self_member_types (apply_operation ty op s) = self_member_types s"
  using assms
  by (cases op)
     (simp_all add: set_collection_name_def lock_restrictiveness_def switch_restrictiveness_def
        try_adding_an_element_def)

lemma locked_run:
  assumes "self_fRestrictivenessIsLocked s"
  shows "self_fRestrictivenessIsLocked (run_operations ty ops s)
       \<and> self_fRestrictive (run_operations ty ops s) = self_fRestrictive s
       \<and> self_member_types (run_operations ty ops s) = self_member_types s"
proof (induction ops rule: rev_induct)
  case Nil
  show ?case using assms by (simp add: run_operations_def)
next
  case (snoc op ops)
  show ?case
    using snoc locked_frame [of "run_operations ty ops s" ty op]
    by (simp add: run_operations_snoc)
qed

text \<open>
  Claim C9. Once \<^verbatim>\<open>lock_restrictiveness\<close> has been called, whatever sequence of
  operations follows, the collection stays locked, its restriction flag and its list of
  allowed types are those it had when it was locked, and a further
  \<^verbatim>\<open>switch_restrictiveness\<close> changes nothing at all.
\<close>

theorem locked_restrictiveness_is_latched:
  "switch_restrictiveness ty (run_operations ty ops (lock_restrictiveness s))
     = run_operations ty ops (lock_restrictiveness s)
   \<and> self_fRestrictive (run_operations ty ops (lock_restrictiveness s)) = self_fRestrictive s
   \<and> self_member_types (run_operations ty ops (lock_restrictiveness s)) = self_member_types s
   \<and> self_fRestrictivenessIsLocked (run_operations ty ops (lock_restrictiveness s))"
  using locked_run [of "lock_restrictiveness s" ty ops]
  by (simp add: lock_restrictiveness_def switch_restrictiveness_def)


subsection \<open>The file adapter\<close>

lemma map_err_Inr_iff: "map_err f xs = Inr ys \<longleftrightarrow> map f xs = map Inr ys"
proof (induction xs arbitrary: ys)
  case Nil
  show ?case by auto
next
  case (Cons x xs)
  show ?case
  proof (cases "f x")
    case (Inl e)
    then show ?thesis by (auto simp add: Cons_eq_map_conv)
  next
    case (Inr y)
    then show ?thesis
      using Cons.IH by (auto simp add: bind_err_Inr_iff Cons_eq_map_conv)
  qed
qed

lemma update_column_Inr:
  assumes "update_column f j rows = Inr rows'"
  shows "length rows' = length rows"
    and "\<And>i. i < length rows \<Longrightarrow> \<exists>v. f (rows ! i ! j) = Inr v \<and> rows' ! i = (rows ! i)[j := v]"
proof -
  let ?g = "\<lambda>r. bind_err (f (r ! j)) (\<lambda>v. Inr (r[j := v]))"
  have eq: "map ?g rows = map Inr rows'"
    using assms by (simp add: update_column_def map_err_Inr_iff)
  then show len: "length rows' = length rows"
    using map_eq_imp_length_eq by fastforce
  fix i assume i: "i < length rows"
  have "map ?g rows ! i = map Inr rows' ! i" using eq by simp
  then have "?g (rows ! i) = Inr (rows' ! i)" using i len by simp
  then show "\<exists>v. f (rows ! i ! j) = Inr v \<and> rows' ! i = (rows ! i)[j := v]"
    by (auto simp add: bind_err_Inr_iff)
qed

lemma cell_sub_Inr: "cell_sub a b = Inr v \<Longrightarrow> \<exists>x. v = Num x"
  by (auto simp add: cell_sub_def split: cell.splits)

lemma cell_float_Num [simp]: "cell_float pf (Num x) = Inr (Num x)"
  by (simp add: cell_float_def)

lemma cell_num_Inr: "cell_num v = Inr x \<longleftrightarrow> v = Num x"
  by (cases v) (auto simp add: cell_num_def)

lemma default_parser_steps:
  assumes "default_parser pyfloat (Arr2 c rows) x_col y_col = Inr (xs, ys)"
  obtains data2 data3 c' srt us vs where
    "rows \<noteq> []" "x_col < c" "y_col < c"
    "update_column (\<lambda>v. cell_sub v (hd rows ! 1)) y_col (tl rows) = Inr data2"
    "update_column (cell_float pyfloat) x_col data2 = Inr data3"
    "sorted_contents (Arr2 c data3) 0 (int x_col) = Inr (Arr2 c' srt)"
    "map_err cell_num (column x_col srt) = Inr us" "xs = Arr1 us"
    "map_err cell_num (column y_col srt) = Inr vs" "ys = Arr1 vs"
proof -
  have g1: "rows \<noteq> []" "y_col < c"
    using assms by (auto simp add: default_parser_def Let_def split: if_splits)
  then obtain data2 where
    d2: "update_column (\<lambda>v. cell_sub v (hd rows ! 1)) y_col (tl rows) = Inr data2"
    using assms
    by (cases "update_column (\<lambda>v. cell_sub v (hd rows ! 1)) y_col (tl rows)")
       (auto simp add: default_parser_def Let_def split: if_splits)
  have g2: "x_col < c" "data2 \<noteq> []"
    using assms g1 d2 by (auto simp add: default_parser_def Let_def split: if_splits)
  then obtain data3 where
    d3: "update_column (cell_float pyfloat) x_col data2 = Inr data3"
    using assms g1 d2
    by (cases "update_column (cell_float pyfloat) x_col data2")
       (auto simp add: default_parser_def Let_def split: if_splits)
  have rest: "(case sorted_contents (Arr2 c data3) 0 (int x_col) of
                 Inl (Sentinel m) \<Rightarrow> Inl TypeError
               | Inl e \<Rightarrow> Inl e
               | Inr (Arr2 c' sorted_rows) \<Rightarrow>
                   bind_err (map_err cell_num (column x_col sorted_rows)) (\<lambda>xs.
                   bind_err (map_err cell_num (column y_col sorted_rows)) (\<lambda>ys.
                     Inr (Arr1 xs, Arr1 ys)))
               | Inr _ \<Rightarrow> Inl IndexError) = Inr (xs, ys)"
    using assms g1 g2 d2 d3 by (simp add: default_parser_def Let_def split: if_splits)
  then obtain a where a: "sorted_contents (Arr2 c data3) 0 (int x_col) = Inr a"
    by (cases "sorted_contents (Arr2 c data3) 0 (int x_col)") (auto split: error.splits)
  then obtain c' srt where srt: "a = Arr2 c' srt"
    using rest by (cases a) auto
  obtain us vs where
    "map_err cell_num (column x_col srt) = Inr us" "xs = Arr1 us"
    "map_err cell_num (column y_col srt) = Inr vs" "ys = Arr1 vs"
    using rest a srt by (auto simp add: bind_err_Inr_iff)
  then show ?thesis
    using that g1 g2 d2 d3 a srt by blast
qed

text \<open>
  Claim C10. Whenever the adapter succeeds, whatever the value column \<^verbatim>\<open>y_col\<close>, every value
  it returns is the entry of one data row in column \<^verbatim>\<open>y_col\<close> minus the entry of the
  baseline row (row 0) in column 1, each data row (rows 1 onwards) being used exactly
  once. The baseline is thus read from column 1 and not from column \<^verbatim>\<open>y_col\<close>: in the
  example below \<^verbatim>\<open>y_col\<close> is 2, the baseline row holds 5 in column 1 and 7 in column 2, and
  the values returned are those of column 2 minus 5.
\<close>

theorem parser_subtracts_column_one_baseline:
  assumes ok: "default_parser pyfloat (Arr2 c rows) x_col y_col = Inr (xs, ys)"
    and wf: "wf_array (Arr2 c rows)"
  shows "\<exists>perm vs. mset perm = mset [1..<length rows] \<and> ys = Arr1 vs
           \<and> map (\<lambda>i. cell_sub (rows ! i ! y_col) (rows ! 0 ! 1)) perm = map (\<lambda>v. Inr (Num v)) vs"
proof -
  obtain data2 data3 c' srt us vs where
    ne: "rows \<noteq> []" and xc: "x_col < c" and yc: "y_col < c"
    and d2: "update_column (\<lambda>v. cell_sub v (hd rows ! 1)) y_col (tl rows) = Inr data2"
    and d3: "update_column (cell_float pyfloat) x_col data2 = Inr data3"
    and st: "sorted_contents (Arr2 c data3) 0 (int x_col) = Inr (Arr2 c' srt)"
    and vs: "map_err cell_num (column y_col srt) = Inr vs" and ys: "ys = Arr1 vs"
    using default_parser_steps [OF ok] by metis
  let ?n = "length (tl rows)"
  have len2: "length data2 = ?n" and len3: "length data3 = ?n"
    using update_column_Inr(1) [OF d2] update_column_Inr(1) [OF d3] by simp_all
  have rowlen: "length (rows ! Suc p) = c" if "p < ?n" for p
    using wf that by (simp add: list_all_length)
  have tl_nth: "tl rows ! p = rows ! Suc p" if "p < ?n" for p
    using that by (simp add: nth_tl)
  have hd0: "hd rows = rows ! 0"
    using ne by (simp add: hd_conv_nth)
  have cellp: "\<exists>v w. cell_sub (rows ! Suc p ! y_col) (rows ! 0 ! 1) = Inr v
                 \<and> data3 ! p = (rows ! Suc p)[y_col := v, x_col := w]
                 \<and> data3 ! p ! y_col = v" if p: "p < ?n" for p
  proof -
    obtain v where v: "cell_sub (rows ! Suc p ! y_col) (rows ! 0 ! 1) = Inr v"
      "data2 ! p = (rows ! Suc p)[y_col := v]"
      using update_column_Inr(2) [OF d2 p] tl_nth [OF p] hd0 by auto
    obtain w where w: "cell_float pyfloat (data2 ! p ! x_col) = Inr w"
      "data3 ! p = (data2 ! p)[x_col := w]"
      using update_column_Inr(2) [OF d3, of p] p len2 by auto
    have "data3 ! p ! y_col = v"
    proof (cases "x_col = y_col")
      case True
      obtain x where "v = Num x" using cell_sub_Inr [OF v(1)] by blast
      then have "w = v" using w(1) v(2) True yc rowlen [OF p] by simp
      then show ?thesis using w(2) v(2) True yc rowlen [OF p] by simp
    next
      case False
      then show ?thesis using w(2) v(2) yc rowlen [OF p] by simp
    qed
    then show ?thesis using v w by auto
  qed
  have wf3: "wf_array (Arr2 c data3)"
  proof -
    have "length (data3 ! p) = c" if p: "p < length data3" for p
    proof -
      obtain v w where "data3 ! p = (rows ! Suc p)[y_col := v, x_col := w]"
        using cellp [of p] p len3 by auto
      then have "length (data3 ! p) = length (rows ! Suc p)" by simp
      then show ?thesis using rowlen [of p] p len3 by simp
    qed
    then show ?thesis by (simp add: list_all_length)
  qed
  have xr: "x_col < length data3"
  proof (rule ccontr)
    assume "\<not> x_col < length data3"
    then have "length data3 \<le> x_col" by simp
    from sorted_contents_axis0_guard [OF this, of c] st show False by simp
  qed
  let ?idx = "argsort (column x_col data3)"
  have srt: "srt = map (\<lambda>p. data3 ! p) ?idx"
    using sorted_contents_axis0 [OF wf3 xr xc] st by simp
  have idx_len: "length ?idx = ?n"
    by (simp add: column_def len3)
  have idx_bound: "?idx ! j < ?n" if "j < ?n" for j
    using argsort_set [of "column x_col data3"] that idx_len nth_mem [of j ?idx]
    by (auto simp add: column_def len3)
  have vs_len: "length vs = ?n"
  proof -
    have "map cell_num (column y_col srt) = map Inr vs"
      using vs by (simp add: map_err_Inr_iff)
    then have "length (column y_col srt) = length vs"
      using map_eq_imp_length_eq by fastforce
    then show ?thesis by (simp add: column_def srt len3)
  qed
  have vs_nth: "srt ! j ! y_col = Num (vs ! j)" if j: "j < ?n" for j
  proof -
    have "map cell_num (column y_col srt) ! j = map Inr vs ! j"
      using vs by (simp add: map_err_Inr_iff)
    then have "cell_num (srt ! j ! y_col) = Inr (vs ! j)"
      using j vs_len len3 by (simp add: column_def srt)
    then show ?thesis by (simp add: cell_num_Inr)
  qed
  let ?perm = "map Suc ?idx"
  have "mset ?perm = image_mset Suc (mset [0..<?n])"
    using argsort_mset [of "column x_col data3"] by (simp add: column_def len3)
  also have "\<dots> = mset (map Suc [0..<?n])" by simp
  also have "\<dots> = mset [1..<length rows]"
    using ne by (simp add: map_Suc_upt)
  finally have perm: "mset ?perm = mset [1..<length rows]" .
  have "map (\<lambda>i. cell_sub (rows ! i ! y_col) (rows ! 0 ! 1)) ?perm = map (\<lambda>v. Inr (Num v)) vs"
  proof (rule nth_equalityI)
    show "length (map (\<lambda>i. cell_sub (rows ! i ! y_col) (rows ! 0 ! 1)) ?perm)
            = length (map (\<lambda>v. Inr (Num v)) vs)"
      by (simp add: column_def len3 vs_len)
    fix j assume "j < length (map (\<lambda>i. cell_sub (rows ! i ! y_col) (rows ! 0 ! 1)) ?perm)"
    then have j: "j < ?n" by (simp add: column_def len3)
    obtain v where v: "cell_sub (rows ! Suc (?idx ! j) ! y_col) (rows ! 0 ! 1) = Inr v"
      "data3 ! (?idx ! j) ! y_col = v"
      using cellp [OF idx_bound [OF j]] by auto
    have "srt ! j = data3 ! (?idx ! j)"
      using j len3 by (simp add: srt column_def)
    then have "v = Num (vs ! j)"
      using vs_nth [OF j] v(2) by simp
    then show "map (\<lambda>i. cell_sub (rows ! i ! y_col) (rows ! 0 ! 1)) ?perm ! j
                 = map (\<lambda>v. Inr (Num v)) vs ! j"
      using v(1) j len3 vs_len by (simp add: column_def)
  qed
  then show ?thesis using perm ys by blast
qed

theorem parser_subtracts_column_one_baseline_witness:
  "default_parser example_float (Arr2 4 example_rows) 3 2
       = Inr (Arr1 [100, 200, 300, 400], Arr1 [52, 42, 32, 22])
   \<and> wf_array (Arr2 4 example_rows)
   \<and> (\<exists>perm vs. mset perm = mset [1..<length example_rows] \<and> Arr1 [52, 42, 32, 22] = Arr1 vs
         \<and> map (\<lambda>i. cell_sub (example_rows ! i ! 2) (example_rows ! 0 ! 1)) perm
             = map (\<lambda>v. Inr (Num v)) vs)"
proof -
  have ev: "default_parser example_float (Arr2 4 example_rows) 3 2
       = Inr (Arr1 [100, 200, 300, 400], Arr1 [52, 42, 32, 22])"
    by (simp add: default_parser_def update_column_def cell_sub_def cell_float_def
        example_float_def sorted_contents_def shape_at_def argsort_def column_def
        columns_loop_def assign_column_def fancy_column_def cell_num_def Let_def upt_rec
        example_rows_def)
  have wf: "wf_array (Arr2 4 example_rows)"
    by (simp add: example_rows_def)
  from parser_subtracts_column_one_baseline [OF ev wf] ev wf show ?thesis by blast
qed


subsection \<open>The file-based factory\<close>

lemma prod_of_equalities_nonzero:
  assumes "length xs = length ys"
  shows "prod_of_equalities (Arr1 xs) (Arr1 ys) \<noteq> 0 \<longleftrightarrow> xs = ys"
  using assms
  by (induction xs ys rule: list_induct2) (auto simp add: prod_of_equalities_def)

lemma spec_aligned_eq: "spec_aligned xs ys \<longleftrightarrow> xs = ys"
  by (auto simp add: spec_aligned_def list_eq_iff_nth_eq)

lemma files_compatible_aligned:
  "files_compatible (Arr1 xs) (Arr1 ys) = Inr (spec_aligned xs ys)"
  using prod_of_equalities_nonzero [of xs ys]
  by (auto simp add: files_compatible_def shape_at_def spec_aligned_eq)

text \<open>
  Claim C7. Given the two parsed files, \<^verbatim>\<open>from_files\<close> takes the independent-variable
  arrays as aligned exactly when they have equal length and are entrywise equal. When
  aligned, its result is that of calling the class with the reference file's values, the
  filtered file's values, zero offsets and the reference file's independent array, with
  no raw data and no model. When not aligned, its result is that of \<^verbatim>\<open>from_ragged_data\<close> on
  the four arrays with zero offsets, with no shape function when no third file is given
  and with the spline built from the parsed third file when one is given.
\<close>

theorem from_files_dispatch:
  assumes pr: "default_parser pyfloat ref_file 3 1 = Inr (Arr1 dep_ref, ref)"
    and pm: "default_parser pyfloat meas_file 3 1 = Inr (Arr1 dep_meas, meas)"
  shows "files_compatible (Arr1 dep_ref) (Arr1 dep_meas) = Inr (spec_aligned dep_ref dep_meas)
     \<and> (spec_aligned dep_ref dep_meas \<longrightarrow>
          from_files cs fit pyfloat ref_file meas_file third
            = TransmitanceMeas1D_call cs (NDArray ref) (NDArray meas) 0 0
                (Some (NDArray (Arr1 dep_ref))) None None None)
     \<and> (\<not> spec_aligned dep_ref dep_meas \<and> third = None \<longrightarrow>
          from_files cs fit pyfloat ref_file meas_file third
            = from_ragged_data cs fit (NDArray (Arr1 dep_ref)) (NDArray ref)
                (NDArray (Arr1 dep_meas)) (NDArray meas) 0 0 None)
     \<and> (\<not> spec_aligned dep_ref dep_meas \<and> third = Some third_file
          \<and> default_parser pyfloat third_file 3 1 = Inr (dep_ref_ref, ref_ref)
          \<and> cs dep_ref_ref ref_ref = Inr ref_ref_func \<longrightarrow>
          from_files cs fit pyfloat ref_file meas_file third
            = from_ragged_data cs fit (NDArray (Arr1 dep_ref)) (NDArray ref)
                (NDArray (Arr1 dep_meas)) (NDArray meas) 0 0 (Some ref_ref_func))"
  using pr pm files_compatible_aligned [of dep_ref dep_meas]
  by (simp add: from_files_def Let_def)

theorem from_files_dispatch_witness:
  "default_parser example_float (Arr2 4 example_rows) 3 1
     = Inr (Arr1 [100, 200, 300, 400], Arr1 [40, 30, 20, 10])
   \<and> default_parser example_float (Arr2 4 example_rows_shifted) 3 1
     = Inr (Arr1 [200, 300, 400, 500], Arr1 [8, 6, 4, 2])
   \<and> spec_aligned [100, 200, 300, 400 :: real] [100, 200, 300, 400]
   \<and> \<not> spec_aligned [100, 200, 300, 400 :: real] [200, 300, 400, 500]
   \<and> from_files example_spline example_fit example_float
        (Arr2 4 example_rows) (Arr2 4 example_rows) None
      = TransmitanceMeas1D_call example_spline (NDArray (Arr1 [40, 30, 20, 10]))
          (NDArray (Arr1 [40, 30, 20, 10])) 0 0 (Some (NDArray (Arr1 [100, 200, 300, 400])))
          None None None
   \<and> from_files example_spline example_fit example_float
        (Arr2 4 example_rows) (Arr2 4 example_rows_shifted) None
      = from_ragged_data example_spline example_fit
          (NDArray (Arr1 [100, 200, 300, 400])) (NDArray (Arr1 [40, 30, 20, 10]))
          (NDArray (Arr1 [200, 300, 400, 500])) (NDArray (Arr1 [8, 6, 4, 2])) 0 0 None
   \<and> (\<exists>g. example_spline (Arr1 [100, 200, 300, 400]) (Arr1 [40, 30, 20, 10]) = Inr g
        \<and> from_files example_spline example_fit example_float
             (Arr2 4 example_rows) (Arr2 4 example_rows_shifted) (Some (Arr2 4 example_rows))
           = from_ragged_data example_spline example_fit
               (NDArray (Arr1 [100, 200, 300, 400])) (NDArray (Arr1 [40, 30, 20, 10]))
               (NDArray (Arr1 [200, 300, 400, 500])) (NDArray (Arr1 [8, 6, 4, 2])) 0 0 (Some g))"
proof -
  have p1: "default_parser example_float (Arr2 4 example_rows) 3 1
     = Inr (Arr1 [100, 200, 300, 400], Arr1 [40, 30, 20, 10])"
    by (simp add: default_parser_def update_column_def cell_sub_def cell_float_def
        example_float_def sorted_contents_def shape_at_def argsort_def column_def
        columns_loop_def assign_column_def fancy_column_def cell_num_def Let_def upt_rec
        example_rows_def)
  have p2: "default_parser example_float (Arr2 4 example_rows_shifted) 3 1
     = Inr (Arr1 [200, 300, 400, 500], Arr1 [8, 6, 4, 2])"
    by (simp add: default_parser_def update_column_def cell_sub_def cell_float_def
        example_float_def sorted_contents_def shape_at_def argsort_def column_def
        columns_loop_def assign_column_def fancy_column_def cell_num_def Let_def upt_rec
        example_rows_shifted_def)
  have a1: "spec_aligned [100, 200, 300, 400 :: real] [100, 200, 300, 400]"
    by (simp add: spec_aligned_def)
  have a2: "\<not> spec_aligned [100, 200, 300, 400 :: real] [200, 300, 400, 500]"
    by (auto simp add: spec_aligned_def)
  obtain g where g: "example_spline (Arr1 [100, 200, 300, 400]) (Arr1 [40, 30, 20, 10]) = Inr g"
    by (simp add: example_spline_def)
  note t1 = from_files_dispatch [OF p1 p1, where cs = example_spline and fit = example_fit and third = None]
  note t2 = from_files_dispatch [OF p1 p2, where cs = example_spline and fit = example_fit and third = None]
  note t3 = from_files_dispatch [OF p1 p2, where cs = example_spline and fit = example_fit
      and third = "Some (Arr2 4 example_rows)" and third_file = "Arr2 4 example_rows"
      and dep_ref_ref = "Arr1 [100, 200, 300, 400]" and ref_ref = "Arr1 [40, 30, 20, 10]"
      and ref_ref_func = g]
  show ?thesis
    using p1 p2 a1 a2 g t1 t2 t3 by blast
qed


end
